theory Spec2Isabelle
  imports Main
begin

section \<open>JavaScript values\<close>

text \<open>
  The server handles values produced by \<^verbatim>\<open>JSON.parse\<close> and builds object literals
  from them. A value is one of the JSON shapes or \<^verbatim>\<open>undefined\<close> (the result of reading
  a property that is not there). Strings are byte strings (the UTF-8 text). Numbers are
  restricted to the integers that JavaScript writes in plain digits (those of magnitude
  below 10^21 that a double holds): a number with a fraction, and one that is written
  with an exponent or is beyond a double's range, are outside the model. The only use
  the server makes of a number is its truthiness and its text. An object is the list of
  its own properties in enumeration order.
\<close>

datatype jsval =
    JUndefined
  | JNull
  | JBool bool
  | JNum int
  | JStr string
  | JArr "jsval list"
  | JObj "(string \<times> jsval) list"

datatype errno = EEXIST | ENOENT | ENOTDIR | EIO

datatype js_error =
    TypeError string
  | SyntaxError string
  | LibraryError string
  | FsError errno

fun errno_text :: "errno \<Rightarrow> string" where
  "errno_text EEXIST = ''EEXIST''"
| "errno_text ENOENT = ''ENOENT''"
| "errno_text ENOTDIR = ''ENOTDIR''"
| "errno_text EIO = ''EIO''"

text \<open>\<^verbatim>\<open>err.message\<close>.\<close>

fun message :: "js_error \<Rightarrow> string" where
  "message (TypeError m) = m"
| "message (SyntaxError m) = m"
| "message (LibraryError m) = m"
| "message (FsError e) = errno_text e"

text \<open>
  Truthiness, as \<^verbatim>\<open>&&\<close>, \<^verbatim>\<open>||\<close>, \<^verbatim>\<open>?:\<close> and \<^verbatim>\<open>!\<close> test it: \<^verbatim>\<open>undefined\<close>, \<^verbatim>\<open>null\<close>,
  \<^verbatim>\<open>false\<close>, \<^verbatim>\<open>0\<close> and the empty string are falsy, everything else (every array and
  object too) is truthy.
\<close>

fun truthy :: "jsval \<Rightarrow> bool" where
  "truthy JUndefined = False"
| "truthy JNull = False"
| "truthy (JBool b) = b"
| "truthy (JNum n) = (n \<noteq> 0)"
| "truthy (JStr s) = (s \<noteq> [])"
| "truthy (JArr _) = True"
| "truthy (JObj _) = True"

text \<open>
  An environment variable or a request header is a string or \<^verbatim>\<open>undefined\<close>.
\<close>

fun of_opt :: "string option \<Rightarrow> jsval" where
  "of_opt None = JUndefined"
| "of_opt (Some s) = JStr s"

text \<open>
  Property read \<^verbatim>\<open>v.k\<close>. Reading a property of \<^verbatim>\<open>undefined\<close> or \<^verbatim>\<open>null\<close> throws a
  TypeError. An object yields its own property or \<^verbatim>\<open>undefined\<close>. The names the server
  reads (\<^verbatim>\<open>id\<close>, \<^verbatim>\<open>type\<close>, \<^verbatim>\<open>data\<close>, \<^verbatim>\<open>object\<close>, \<^verbatim>\<open>last_payment_error\<close>, \<^verbatim>\<open>message\<close>,
  \<^verbatim>\<open>customer\<close>) are on no prototype, so on a boolean, number, string or array the read
  yields \<^verbatim>\<open>undefined\<close>. The error's message is V8's, without the quotes it puts around
  the property's name.
\<close>

fun get_prop :: "jsval \<Rightarrow> string \<Rightarrow> js_error + jsval" where
  "get_prop JUndefined k = Inl (TypeError (''Cannot read properties of undefined (reading '' @ k @ '')''))"
| "get_prop JNull k = Inl (TypeError (''Cannot read properties of null (reading '' @ k @ '')''))"
| "get_prop (JObj kvs) k = Inr (case map_of kvs k of None \<Rightarrow> JUndefined | Some v \<Rightarrow> v)"
| "get_prop _ k = Inr JUndefined"

text \<open>\<^verbatim>\<open>a || b\<close> on values.\<close>

definition js_or :: "jsval \<Rightarrow> jsval \<Rightarrow> jsval" where
  "js_or a b = (if truthy a then a else b)"


section \<open>JSON.stringify\<close>

text \<open>
  \<^verbatim>\<open>JSON.stringify\<close> without indentation, after ECMAScript's SerializeJSONProperty: a
  string is quoted, with the quote, the backslash and the control characters below
  0x20 escaped; an array writes \<^verbatim>\<open>null\<close> for an element that is \<^verbatim>\<open>undefined\<close>; an object
  leaves out a property whose value is \<^verbatim>\<open>undefined\<close>.
\<close>

definition newline :: char where
  "newline = CHR 0x0A"

definition backslash :: char where
  "backslash = CHR 0x5C"

definition dquote :: char where
  "dquote = CHR 0x22"

definition hex_digit :: "nat \<Rightarrow> char" where
  "hex_digit n = char_of (if n < 10 then 48 + n else 87 + n)"

definition quote_char :: "char \<Rightarrow> string" where
  "quote_char c =
     (if c = dquote then [backslash, dquote]
      else if c = backslash then [backslash, backslash]
      else if c = CHR 0x08 then [backslash, CHR ''b'']
      else if c = CHR 0x09 then [backslash, CHR ''t'']
      else if c = CHR 0x0A then [backslash, CHR ''n'']
      else if c = CHR 0x0C then [backslash, CHR ''f'']
      else if c = CHR 0x0D then [backslash, CHR ''r'']
      else if (of_char c :: nat) < 32
        then [backslash, CHR ''u'', CHR ''0'', CHR ''0'',
              hex_digit ((of_char c :: nat) div 16), hex_digit ((of_char c :: nat) mod 16)]
      else [c])"

definition quote :: "string \<Rightarrow> string" where
  "quote s = [dquote] @ concat (map quote_char s) @ [dquote]"

fun show_nat :: "nat \<Rightarrow> string" where
  "show_nat n =
     (if n < 10 then [char_of (48 + n)]
      else show_nat (n div 10) @ [char_of (48 + n mod 10)])"

declare show_nat.simps [simp del]

definition show_int :: "int \<Rightarrow> string" where
  "show_int i = (if i < 0 then CHR ''-'' # show_nat (nat (- i)) else show_nat (nat i))"

fun join_comma :: "string list \<Rightarrow> string" where
  "join_comma [] = []"
| "join_comma [x] = x"
| "join_comma (x # y # ys) = x @ '','' @ join_comma (y # ys)"

fun serialize :: "jsval \<Rightarrow> string option"
  and serialize_elements :: "jsval list \<Rightarrow> string list"
  and serialize_properties :: "(string \<times> jsval) list \<Rightarrow> string list" where
  "serialize JUndefined = None"
| "serialize JNull = Some ''null''"
| "serialize (JBool b) = Some (if b then ''true'' else ''false'')"
| "serialize (JNum n) = Some (show_int n)"
| "serialize (JStr s) = Some (quote s)"
| "serialize (JArr xs) = Some (''['' @ join_comma (serialize_elements xs) @ '']'')"
| "serialize (JObj kvs) = Some (''{'' @ join_comma (serialize_properties kvs) @ ''}'')"
| "serialize_elements [] = []"
| "serialize_elements (x # xs) =
     (case serialize x of None \<Rightarrow> ''null'' | Some t \<Rightarrow> t) # serialize_elements xs"
| "serialize_properties [] = []"
| "serialize_properties ((k, v) # kvs) =
     (case serialize v of
        None \<Rightarrow> serialize_properties kvs
      | Some t \<Rightarrow> (quote k @ '':'' @ t) # serialize_properties kvs)"

text \<open>
  \<^verbatim>\<open>JSON.stringify(v) + s\<close>: the text when there is one; \<^verbatim>\<open>JSON.stringify(undefined)\<close> is
  \<^verbatim>\<open>undefined\<close>, which string concatenation writes out.
\<close>

definition JSON_stringify :: "jsval \<Rightarrow> string" where
  "JSON_stringify v = (case serialize v of None \<Rightarrow> ''undefined'' | Some t \<Rightarrow> t)"

section \<open>Strings of values\<close>

text \<open>
  ECMAScript's ToString, which a template literal applies to what it interpolates. A
  value from \<^verbatim>\<open>JSON.parse\<close> holds no function: an object with a property of its own
  named \<^verbatim>\<open>toString\<close> has no callable \<^verbatim>\<open>toString\<close> and \<^verbatim>\<open>valueOf\<close> gives the object back,
  so its conversion throws a TypeError; any other object is \<^verbatim>\<open>[object Object]\<close>. An array
  is its elements joined by commas, \<^verbatim>\<open>null\<close> and \<^verbatim>\<open>undefined\<close> elements being empty.
\<close>

fun to_string :: "jsval \<Rightarrow> js_error + string"
  and element_strings :: "jsval list \<Rightarrow> js_error + string list" where
  "to_string JUndefined = Inr ''undefined''"
| "to_string JNull = Inr ''null''"
| "to_string (JBool b) = Inr (if b then ''true'' else ''false'')"
| "to_string (JNum n) = Inr (show_int n)"
| "to_string (JStr s) = Inr s"
| "to_string (JArr xs) =
     (case element_strings xs of Inl err \<Rightarrow> Inl err | Inr ts \<Rightarrow> Inr (join_comma ts))"
| "to_string (JObj kvs) =
     (if map_of kvs ''toString'' \<noteq> None
      then Inl (TypeError ''Cannot convert object to primitive value'')
      else Inr ''[object Object]'')"
| "element_strings [] = Inr []"
| "element_strings (x # xs) =
     (case (if x = JUndefined \<or> x = JNull then Inr [] else to_string x) of
        Inl err \<Rightarrow> Inl err
      | Inr t \<Rightarrow>
          (case element_strings xs of Inl err \<Rightarrow> Inl err | Inr ts \<Rightarrow> Inr (t # ts)))"

text \<open>
  What a request's \<^verbatim>\<open>req.body\<close> is when a handler runs: the raw bytes in a Buffer, a
  value that a body parser has put there (\<^verbatim>\<open>{}\<close> too), or \<^verbatim>\<open>undefined\<close>.
\<close>

datatype req_body = Buffer string | Parsed jsval | Undefined

text \<open>
  \<^verbatim>\<open>req.body.toString()\<close>: a Buffer's bytes as text (they are taken to be UTF-8); on
  \<^verbatim>\<open>undefined\<close> and \<^verbatim>\<open>null\<close> the read of \<^verbatim>\<open>toString\<close> throws; on an object with a
  property of its own named \<^verbatim>\<open>toString\<close> the call throws, on any other object it gives
  \<^verbatim>\<open>[object Object]\<close>, and on any other value its string.
\<close>

definition body_toString :: "req_body \<Rightarrow> js_error + string" where
  "body_toString body =
     (case body of
        Buffer bytes \<Rightarrow> Inr bytes
      | Undefined \<Rightarrow> Inl (TypeError ''Cannot read properties of undefined (reading toString)'')
      | Parsed v \<Rightarrow>
          (case v of
             JUndefined \<Rightarrow> Inl (TypeError ''Cannot read properties of undefined (reading toString)'')
           | JNull \<Rightarrow> Inl (TypeError ''Cannot read properties of null (reading toString)'')
           | JObj kvs \<Rightarrow>
               if map_of kvs ''toString'' \<noteq> None
               then Inl (TypeError ''req.body.toString is not a function'')
               else Inr ''[object Object]''
           | _ \<Rightarrow> to_string v))"

text \<open>
  \<^verbatim>\<open>bodyParser.raw({ type: 'application/json' })\<close>, the route's middleware (line 90), for
  a request it lets through to the handler: when the request has a body and its
  Content-Type is \<^verbatim>\<open>application/json\<close> (\<open>json_typed\<close>), \<^verbatim>\<open>req.body\<close> is the Buffer of its
  bytes; otherwise the bytes are not read and \<^verbatim>\<open>req.body\<close> is what the parser leaves
  unread requests with (\<open>unread\<close>): \<^verbatim>\<open>{}\<close> with body-parser 1, \<^verbatim>\<open>undefined\<close> with
  body-parser 2.
\<close>

definition bodyParser_raw :: "bool \<Rightarrow> req_body \<Rightarrow> string \<Rightarrow> req_body" where
  "bodyParser_raw json_typed unread bytes = (if json_typed then Buffer bytes else unread)"


section \<open>Server state\<close>

text \<open>
  What \<^verbatim>\<open>console.log\<close> and \<^verbatim>\<open>console.error\<close> were called with. (The emoji that start
  some of the source's messages are left out.)
\<close>

datatype console_arg = Text string | Val jsval | Exc js_error

datatype console_line = ConsoleLog "console_arg list" | ConsoleError "console_arg list"

text \<open>
  The directory \<^verbatim>\<open>LOG_DIR\<close> on disk: the path does not exist, it is taken by something
  that is not a directory, or it is a directory holding regular files, given as a map
  from the file's path to its bytes. Every path the server names lies directly in
  \<^verbatim>\<open>LOG_DIR\<close>.
\<close>

datatype log_dir = NoEntry | NotADirectory | Directory "string \<rightharpoonup> string"

text \<open>
  The module-level state: the array \<^verbatim>\<open>receivedWebhooks\<close>, the log directory, the console,
  and the calls of \<^verbatim>\<open>appendWebhookLog\<close> that a handler has started without awaiting them
  (each with its argument).
\<close>

record server =
  receivedWebhooks :: "jsval list"
  logs :: log_dir
  console :: "console_line list"
  pending :: "jsval list"

text \<open>
  What the handler takes from outside the repository: the environment variable
  \<^verbatim>\<open>STRIPE_WEBHOOK_SECRET\<close>, the Stripe library's \<^verbatim>\<open>stripe.webhooks.constructEvent\<close>
  (given \<^verbatim>\<open>req.body\<close>, the signature header and the secret; it returns the event or
  throws) and \<^verbatim>\<open>JSON.parse\<close> (applied to a text; it returns the value or throws a
  SyntaxError).
\<close>

record env =
  STRIPE_WEBHOOK_SECRET :: "string option"
  constructEvent :: "req_body \<Rightarrow> string option \<Rightarrow> string option \<Rightarrow> js_error + jsval"
  JSON_parse :: "string \<Rightarrow> js_error + jsval"

datatype response =
    Send nat string
  | SendJson nat jsval
  | ErrorPage nat js_error

section \<open>POST /webhook\<close>

text \<open>
  The \<^verbatim>\<open>try\<close> block of the handler (lines 96 to 103), given the signature header and
  \<^verbatim>\<open>req.body\<close> as the middleware left it: the event and the line it logs, or the error
  that the \<^verbatim>\<open>catch\<close> receives. In the verified branch \<^verbatim>\<open>event.type\<close> is read inside
  the \<^verbatim>\<open>try\<close>; in the other, \<^verbatim>\<open>req.body.toString()\<close> is called there.
\<close>

definition verify :: "env \<Rightarrow> string option \<Rightarrow> req_body \<Rightarrow> js_error + (jsval \<times> console_line)" where
  "verify e sig body =
     (let webhookSecret = STRIPE_WEBHOOK_SECRET e in
      if truthy (of_opt webhookSecret) \<and> truthy (of_opt sig) then
        (case constructEvent e body sig webhookSecret of
           Inl err \<Rightarrow> Inl err
         | Inr event \<Rightarrow>
             (case get_prop event ''type'' of
                Inl err \<Rightarrow> Inl err
              | Inr t \<Rightarrow> Inr (event, ConsoleLog [Text ''Verified event from Stripe:'', Val t])))
      else
        (case body_toString body of
           Inl err \<Rightarrow> Inl err
         | Inr text \<Rightarrow>
             (case JSON_parse e text of
                Inl err \<Rightarrow> Inl err
              | Inr event \<Rightarrow>
                  Inr (event, ConsoleLog [Text ''No signature provided (manual/local test)'']))))"

text \<open>
  The object literal pushed at lines 110 to 115; its property values are evaluated in
  order, \<^verbatim>\<open>created\<close> being the clock's ISO text.
\<close>

definition webhook_record :: "string \<Rightarrow> jsval \<Rightarrow> js_error + jsval" where
  "webhook_record now event =
     (case get_prop event ''id'' of
        Inl err \<Rightarrow> Inl err
      | Inr i \<Rightarrow>
     (case get_prop event ''type'' of
        Inl err \<Rightarrow> Inl err
      | Inr t \<Rightarrow>
     (case get_prop event ''data'' of
        Inl err \<Rightarrow> Inl err
      | Inr d \<Rightarrow>
     (case get_prop d ''object'' of
        Inl err \<Rightarrow> Inl err
      | Inr obj \<Rightarrow>
          Inr (JObj [(''id'', i), (''type'', t), (''created'', JStr now), (''data'', obj)])))))"

text \<open>
  \<^verbatim>\<open>receivedWebhooks.push(r)\<close>, and lines 123 to 125: when the array is longer than 100,
  \<^verbatim>\<open>splice(0, length - 100)\<close> removes that many elements from its head.
\<close>

definition push :: "jsval list \<Rightarrow> jsval \<Rightarrow> jsval list" where
  "push buf r = buf @ [r]"

definition keep_last_100 :: "jsval list \<Rightarrow> jsval list" where
  "keep_last_100 buf = (if length buf > 100 then drop (length buf - 100) buf else buf)"

text \<open>
  The \<^verbatim>\<open>switch\<close> on \<^verbatim>\<open>event.type\<close> (lines 128 to 137): the line it logs, or the
  TypeError of a property read or of the template literal's conversion of
  \<^verbatim>\<open>event.type\<close> to a string. \<^verbatim>\<open>?.\<close> yields \<^verbatim>\<open>undefined\<close> on \<^verbatim>\<open>undefined\<close> and \<^verbatim>\<open>null\<close>.
\<close>

definition event_data_object :: "jsval \<Rightarrow> js_error + jsval" where
  "event_data_object event =
     (case get_prop event ''data'' of
        Inl err \<Rightarrow> Inl err
      | Inr d \<Rightarrow> get_prop d ''object'')"

definition dispatch :: "jsval \<Rightarrow> js_error + console_line" where
  "dispatch event =
     (case get_prop event ''type'' of
        Inl err \<Rightarrow> Inl err
      | Inr t \<Rightarrow>
          if t = JStr ''payment_intent.succeeded'' then
            (case event_data_object event of
               Inl err \<Rightarrow> Inl err
             | Inr obj \<Rightarrow>
                 (case get_prop obj ''id'' of
                    Inl err \<Rightarrow> Inl err
                  | Inr i \<Rightarrow> Inr (ConsoleLog [Text ''Payment succeeded:'', Val i])))
          else if t = JStr ''payment_intent.payment_failed'' then
            (case event_data_object event of
               Inl err \<Rightarrow> Inl err
             | Inr obj \<Rightarrow>
                 (case get_prop obj ''last_payment_error'' of
                    Inl err \<Rightarrow> Inl err
                  | Inr lpe \<Rightarrow>
                      if lpe = JUndefined \<or> lpe = JNull
                      then Inr (ConsoleLog [Text ''Payment failed:'', Val JUndefined])
                      else (case get_prop lpe ''message'' of
                              Inl err \<Rightarrow> Inl err
                            | Inr m \<Rightarrow> Inr (ConsoleLog [Text ''Payment failed:'', Val m]))))
          else
            (case to_string t of
               Inl err \<Rightarrow> Inl err
             | Inr text \<Rightarrow> Inr (ConsoleLog [Text (''Unhandled event type: '' @ text)])))"

text \<open>
  The handler (lines 91 to 140), run on a request with the given signature header and
  \<^verbatim>\<open>req.body\<close> while the clock reads \<open>now\<close>. An exception that leaves the handler is
  answered by Express with status 500. \<^verbatim>\<open>appendWebhookLog(event)\<close> is started and not
  awaited: it joins \<open>pending\<close>.
\<close>

definition webhook_post ::
  "env \<Rightarrow> string \<Rightarrow> string option \<Rightarrow> req_body \<Rightarrow> server \<Rightarrow> response \<times> server" where
  "webhook_post e now sig body s =
     (case verify e sig body of
        Inl err \<Rightarrow>
          (Send 400 (''Webhook Error: '' @ message err),
           s\<lparr>console := console s @
               [ConsoleError [Text ''Webhook signature verification failed:'', Text (message err)]]\<rparr>)
      | Inr (event, line) \<Rightarrow>
          (let s1 = s\<lparr>console := console s @ [line]\<rparr> in
           case webhook_record now event of
             Inl err \<Rightarrow> (ErrorPage 500 err, s1)
           | Inr r \<Rightarrow>
               (let s2 = s1\<lparr>receivedWebhooks := push (receivedWebhooks s1) r\<rparr>;
                    s3 = s2\<lparr>pending := pending s2 @ [event]\<rparr>;
                    s4 = s3\<lparr>receivedWebhooks := keep_last_100 (receivedWebhooks s3)\<rparr>
                in case dispatch event of
                     Inl err \<Rightarrow> (ErrorPage 500 err, s4)
                   | Inr line' \<Rightarrow>
                       (SendJson 200 (JObj [(''received'', JBool True)]),
                        s4\<lparr>console := console s4 @ [line']\<rparr>))))"

section \<open>GET /webhook\<close>

definition webhook_get :: "server \<Rightarrow> response \<times> server" where
  "webhook_get s =
     (SendJson 200 (JObj [(''total'', JNum (int (length (receivedWebhooks s)))),
                          (''events'', JArr (receivedWebhooks s))]), s)"


section \<open>The log directory\<close>

text \<open>
  Paths are written relative to \<^verbatim>\<open>__dirname\<close>, the directory of the running module;
  \<^verbatim>\<open>path.join\<close> of two plain segments puts a slash between them.
\<close>

definition path_join :: "string \<Rightarrow> string \<Rightarrow> string" where
  "path_join d n = d @ ''/'' @ n"

definition LOG_DIR :: string where
  "LOG_DIR = ''logs''"

definition LOG_FILE :: string where
  "LOG_FILE = path_join LOG_DIR ''webhooks.log''"

text \<open>
  Line 20. (Its comment says to rotate above 5 MB; line 42 compares with \<^verbatim>\<open>>=\<close>.)
\<close>

definition MAX_LOG_BYTES :: nat where
  "MAX_LOG_BYTES = 5 * 1024 * 1024"

text \<open>
  The file system calls of Node that the server makes. Each can fail for a reason
  the directory's state does not show (permissions, a full disk, no free descriptor):
  \<open>failing\<close> names the calls that do so during one run of \<^verbatim>\<open>appendWebhookLog\<close>, and
  \<open>flushed\<close> what a failing write stream leaves behind: nothing (the file could not be
  opened) or that many bytes of the output.
\<close>

datatype fs_call = Mkdir | Stat | Rename | ReadStream | WriteStream | Unlink | AppendFile

record io_faults =
  failing :: "fs_call set"
  flushed :: "nat option"

text \<open>\<^verbatim>\<open>fsp.mkdir(LOG_DIR, { recursive: true })\<close>: no error when the directory exists.\<close>

definition fsp_mkdir :: "io_faults \<Rightarrow> log_dir \<Rightarrow> errno + log_dir" where
  "fsp_mkdir f d =
     (if Mkdir \<in> failing f then Inl EIO
      else case d of
             NoEntry \<Rightarrow> Inr (Directory Map.empty)
           | NotADirectory \<Rightarrow> Inl EEXIST
           | Directory files \<Rightarrow> Inr (Directory files))"

text \<open>\<^verbatim>\<open>fsp.stat(p)\<close>, of which the server reads \<^verbatim>\<open>size\<close>.\<close>

definition fsp_stat :: "io_faults \<Rightarrow> string \<Rightarrow> log_dir \<Rightarrow> errno + nat" where
  "fsp_stat f p d =
     (if Stat \<in> failing f then Inl EIO
      else case d of
             NoEntry \<Rightarrow> Inl ENOENT
           | NotADirectory \<Rightarrow> Inl ENOTDIR
           | Directory files \<Rightarrow>
               (case files p of None \<Rightarrow> Inl ENOENT | Some c \<Rightarrow> Inr (length c)))"

text \<open>\<^verbatim>\<open>fsp.rename(p, q)\<close>: a file at \<open>q\<close> is replaced.\<close>

definition fsp_rename :: "io_faults \<Rightarrow> string \<Rightarrow> string \<Rightarrow> log_dir \<Rightarrow> errno + log_dir" where
  "fsp_rename f p q d =
     (if Rename \<in> failing f then Inl EIO
      else case d of
             NoEntry \<Rightarrow> Inl ENOENT
           | NotADirectory \<Rightarrow> Inl ENOTDIR
           | Directory files \<Rightarrow>
               (case files p of
                  None \<Rightarrow> Inl ENOENT
                | Some c \<Rightarrow> Inr (Directory ((files(p := None))(q \<mapsto> c)))))"

text \<open>\<^verbatim>\<open>fsp.unlink(p)\<close>.\<close>

definition fsp_unlink :: "io_faults \<Rightarrow> string \<Rightarrow> log_dir \<Rightarrow> errno + log_dir" where
  "fsp_unlink f p d =
     (if Unlink \<in> failing f then Inl EIO
      else case d of
             NoEntry \<Rightarrow> Inl ENOENT
           | NotADirectory \<Rightarrow> Inl ENOTDIR
           | Directory files \<Rightarrow>
               (case files p of
                  None \<Rightarrow> Inl ENOENT
                | Some c \<Rightarrow> Inr (Directory (files(p := None)))))"

text \<open>
  \<^verbatim>\<open>fsp.appendFile(p, text, 'utf8')\<close>: the file is created when it is not there; the
  write happens whole or not at all.
\<close>

definition fsp_appendFile :: "io_faults \<Rightarrow> string \<Rightarrow> string \<Rightarrow> log_dir \<Rightarrow> errno + log_dir" where
  "fsp_appendFile f p text d =
     (if AppendFile \<in> failing f then Inl EIO
      else case d of
             NoEntry \<Rightarrow> Inl ENOENT
           | NotADirectory \<Rightarrow> Inl ENOTDIR
           | Directory files \<Rightarrow>
               Inr (Directory (files(p \<mapsto> (case files p of None \<Rightarrow> [] | Some c \<Rightarrow> c) @ text))))"


text \<open>
  Lines 48 to 55: \<^verbatim>\<open>createReadStream(p)\<close> piped through the gzip transform into
  \<^verbatim>\<open>createWriteStream(q)\<close>, the compressor \<open>gzip\<close> being zlib's. The promise resolves on
  the output's \<^verbatim>\<open>finish\<close> and rejects on the output's \<^verbatim>\<open>error\<close>. The input stream has
  no \<^verbatim>\<open>error\<close> listener (\<^verbatim>\<open>pipe\<close> adds none to its source), so an error of the input
  is an unhandled \<^verbatim>\<open>error\<close> event: Node throws it as an uncaught exception, and the
  promise is never settled. The output file has been opened by then (unless that
  failed too): it is left behind empty.
\<close>

datatype pipe_result =
    Finish log_dir
  | OutputError errno log_dir
  | InputError errno log_dir

definition gzip_pipe ::
  "(string \<Rightarrow> string) \<Rightarrow> io_faults \<Rightarrow> string \<Rightarrow> string \<Rightarrow> log_dir \<Rightarrow> pipe_result" where
  "gzip_pipe gzip f p q d =
     (case d of
        NoEntry \<Rightarrow> InputError ENOENT d
      | NotADirectory \<Rightarrow> InputError ENOTDIR d
      | Directory files \<Rightarrow>
          (let opened = (if WriteStream \<in> failing f \<and> flushed f = None then d
                         else Directory (files(q \<mapsto> [])))
           in case files p of
                None \<Rightarrow> InputError ENOENT opened
              | Some c \<Rightarrow>
                  if ReadStream \<in> failing f then InputError EIO opened
                  else if WriteStream \<in> failing f then
                    (case flushed f of
                       None \<Rightarrow> OutputError EIO d
                     | Some k \<Rightarrow> OutputError EIO (Directory (files(q \<mapsto> take k (gzip c)))))
                  else Finish (Directory (files(q \<mapsto> gzip c)))))"

section \<open>The log pipeline\<close>

text \<open>
  How a call of an \<^verbatim>\<open>async\<close> function ends: its promise resolves, its promise rejects,
  or an uncaught exception ends the process. The state beside it is the state at that
  moment.
\<close>

datatype settled = Resolved | Rejected js_error | Uncaught js_error

text \<open>\<^verbatim>\<open>ensureLogDir\<close>, lines 28 to 34.\<close>

definition ensureLogDir :: "io_faults \<Rightarrow> server \<Rightarrow> settled \<times> server" where
  "ensureLogDir f s =
     (case fsp_mkdir f (logs s) of
        Inr d \<Rightarrow> (Resolved, s\<lparr>logs := d\<rparr>)
      | Inl e \<Rightarrow>
          (Resolved,
           s\<lparr>console := console s @
               [ConsoleError [Text ''Failed to create log dir'', Exc (FsError e)]]\<rparr>))"

text \<open>\<^verbatim>\<open>.replace(/[:.]/g, '-')\<close>.\<close>

definition replace_colon_dot :: "string \<Rightarrow> string" where
  "replace_colon_dot t = map (\<lambda>c. if c = CHR '':'' \<or> c = CHR ''.'' then CHR ''-'' else c) t"

definition rotatedName_of :: "string \<Rightarrow> string" where
  "rotatedName_of now = path_join LOG_DIR (''webhooks-'' @ replace_colon_dot now @ ''.log'')"

definition gzipPath_of :: "string \<Rightarrow> string" where
  "gzipPath_of now = rotatedName_of now @ ''.gz''"

text \<open>
  \<^verbatim>\<open>rotateLogIfNeeded\<close>, lines 37 to 63, run while the clock's ISO text is \<open>now\<close>. A
  failing \<^verbatim>\<open>stat\<close> yields \<^verbatim>\<open>null\<close> and the function returns; a failing \<^verbatim>\<open>unlink\<close> is
  ignored; any other error of an awaited call is caught and logged.
\<close>

definition rotateLogIfNeeded ::
  "(string \<Rightarrow> string) \<Rightarrow> io_faults \<Rightarrow> string \<Rightarrow> server \<Rightarrow> settled \<times> server" where
  "rotateLogIfNeeded gzip f now s =
     (case fsp_stat f LOG_FILE (logs s) of
        Inl _ \<Rightarrow> (Resolved, s)
      | Inr stat_size \<Rightarrow>
          if stat_size \<ge> MAX_LOG_BYTES then
            (let rotatedName = rotatedName_of now in
             case fsp_rename f LOG_FILE rotatedName (logs s) of
               Inl e \<Rightarrow>
                 (Resolved,
                  s\<lparr>console := console s @
                      [ConsoleError [Text ''Error rotating log'', Exc (FsError e)]]\<rparr>)
             | Inr d1 \<Rightarrow>
                 (let gzipPath = rotatedName @ ''.gz'' in
                  case gzip_pipe gzip f rotatedName gzipPath d1 of
                    InputError e d2 \<Rightarrow> (Uncaught (FsError e), s\<lparr>logs := d2\<rparr>)
                  | OutputError e d2 \<Rightarrow>
                      (Resolved,
                       s\<lparr>logs := d2,
                         console := console s @
                           [ConsoleError [Text ''Error rotating log'', Exc (FsError e)]]\<rparr>)
                  | Finish d2 \<Rightarrow>
                      (let d3 = (case fsp_unlink f rotatedName d2 of
                                   Inl _ \<Rightarrow> d2
                                 | Inr d \<Rightarrow> d)
                       in (Resolved,
                           s\<lparr>logs := d3,
                             console := console s @
                               [ConsoleLog [Text (''Rotated and compressed log to '' @ gzipPath)]]\<rparr>))))
          else (Resolved, s))"

text \<open>
  The entry built at lines 70 to 75, \<open>now\<close> being the clock's ISO text:
  \<^verbatim>\<open>event.id || null\<close>, \<^verbatim>\<open>event.type || null\<close>,
  \<^verbatim>\<open>event.data ? event.data.object : event\<close>.
\<close>

definition log_entry :: "string \<Rightarrow> jsval \<Rightarrow> js_error + jsval" where
  "log_entry now event =
     (case get_prop event ''id'' of
        Inl err \<Rightarrow> Inl err
      | Inr i \<Rightarrow>
     (case get_prop event ''type'' of
        Inl err \<Rightarrow> Inl err
      | Inr t \<Rightarrow>
     (case get_prop event ''data'' of
        Inl err \<Rightarrow> Inl err
      | Inr d \<Rightarrow>
     (case (if truthy d then get_prop d ''object'' else Inr event) of
        Inl err \<Rightarrow> Inl err
      | Inr p \<Rightarrow>
          Inr (JObj [(''receivedAt'', JStr now), (''id'', js_or i JNull),
                     (''type'', js_or t JNull), (''payload'', p)])))))"

text \<open>Line 76.\<close>

definition log_line :: "jsval \<Rightarrow> string" where
  "log_line entry = JSON_stringify entry @ [newline]"

text \<open>
  \<^verbatim>\<open>appendWebhookLog\<close>, lines 66 to 81. \<open>rotate_now\<close> and \<open>entry_now\<close> are the clock's
  ISO text when \<^verbatim>\<open>rotateLogIfNeeded\<close> and when the entry read it. An awaited promise
  that rejects throws into the \<^verbatim>\<open>try\<close>; an uncaught exception is not a rejection and
  no \<^verbatim>\<open>catch\<close> sees it.
\<close>

definition failed_to_append :: "js_error \<Rightarrow> server \<Rightarrow> server" where
  "failed_to_append err s =
     s\<lparr>console := console s @ [ConsoleError [Text ''Failed to append webhook log'', Exc err]]\<rparr>"

definition appendWebhookLog ::
  "(string \<Rightarrow> string) \<Rightarrow> io_faults \<Rightarrow> string \<Rightarrow> string \<Rightarrow> jsval \<Rightarrow> server \<Rightarrow> settled \<times> server" where
  "appendWebhookLog gzip f rotate_now entry_now event s =
     (case ensureLogDir f s of
        (Uncaught err, s1) \<Rightarrow> (Uncaught err, s1)
      | (Rejected err, s1) \<Rightarrow> (Resolved, failed_to_append err s1)
      | (Resolved, s1) \<Rightarrow>
          (case rotateLogIfNeeded gzip f rotate_now s1 of
             (Uncaught err, s2) \<Rightarrow> (Uncaught err, s2)
           | (Rejected err, s2) \<Rightarrow> (Resolved, failed_to_append err s2)
           | (Resolved, s2) \<Rightarrow>
               (case log_entry entry_now event of
                  Inl err \<Rightarrow> (Resolved, failed_to_append err s2)
                | Inr entry \<Rightarrow>
                    (case fsp_appendFile f LOG_FILE (log_line entry) (logs s2) of
                       Inl e \<Rightarrow> (Resolved, failed_to_append (FsError e) s2)
                     | Inr d \<Rightarrow> (Resolved, s2\<lparr>logs := d\<rparr>)))))"

text \<open>
  One turn of the event loop given to the log pipeline: the oldest started call of
  \<^verbatim>\<open>appendWebhookLog\<close> runs to its end. (The handler's \<^verbatim>\<open>.catch\<close> on the call logs a
  rejection.)
\<close>

definition run_pending ::
  "(string \<Rightarrow> string) \<Rightarrow> io_faults \<Rightarrow> string \<Rightarrow> string \<Rightarrow> server \<Rightarrow> settled \<times> server" where
  "run_pending gzip f rotate_now entry_now s =
     (case pending s of
        [] \<Rightarrow> (Resolved, s)
      | event # rest \<Rightarrow>
          (case appendWebhookLog gzip f rotate_now entry_now event (s\<lparr>pending := rest\<rparr>) of
             (Rejected err, s') \<Rightarrow>
               (Resolved,
                s'\<lparr>console := console s' @
                     [ConsoleError [Text ''appendWebhookLog error'', Exc err]]\<rparr>)
           | r \<Rightarrow> r))"


section \<open>The server as a whole\<close>

text \<open>
  One record pushed and the array trimmed: what a handled request does to
  \<^verbatim>\<open>receivedWebhooks\<close> between lines 110 and 125.
\<close>

definition ring_push :: "jsval list \<Rightarrow> jsval \<Rightarrow> jsval list" where
  "ring_push buf r = keep_last_100 (push buf r)"

text \<open>
  A request to one of the two \<^verbatim>\<open>/webhook\<close> routes: a POST with the clock's ISO text at
  its arrival, its \<^verbatim>\<open>stripe-signature\<close> header and its \<^verbatim>\<open>req.body\<close>, or a GET.
\<close>

datatype request = PostWebhook string "string option" req_body | GetWebhook

fun handle :: "env \<Rightarrow> request \<Rightarrow> server \<Rightarrow> response \<times> server" where
  "handle e (PostWebhook now sig body) s = webhook_post e now sig body s"
| "handle e GetWebhook s = webhook_get s"

text \<open>
  A turn of the event loop: a request is handled, or the oldest started call of
  \<^verbatim>\<open>appendWebhookLog\<close> is run (with the calls that fail in it and its two clock
  readings). A log turn that ends the process has no successor in a real run; \<open>run\<close>
  goes on from the state it left, so the states it reaches include every state a real
  run reaches.
\<close>

datatype turn = Request request | LogTurn io_faults string string

fun take_turn :: "env \<Rightarrow> (string \<Rightarrow> string) \<Rightarrow> turn \<Rightarrow> server \<Rightarrow> server" where
  "take_turn e gzip (Request r) s = snd (handle e r s)"
| "take_turn e gzip (LogTurn f rotate_now entry_now) s =
     snd (run_pending gzip f rotate_now entry_now s)"

definition run :: "env \<Rightarrow> (string \<Rightarrow> string) \<Rightarrow> turn list \<Rightarrow> server \<Rightarrow> server" where
  "run e gzip turns s = foldl (\<lambda>s t. take_turn e gzip t s) s turns"

text \<open>The state when the module has loaded (line 16), over a log directory \<open>d\<close>.\<close>

definition initial :: "log_dir \<Rightarrow> server" where
  "initial d = \<lparr>receivedWebhooks = [], logs = d, console = [], pending = []\<rparr>"

definition no_faults :: io_faults where
  "no_faults = \<lparr>failing = {}, flushed = None\<rparr>"

text \<open>A response's status.\<close>

definition status_of :: "response \<Rightarrow> nat" where
  "status_of r = (case r of Send n _ \<Rightarrow> n | SendJson n _ \<Rightarrow> n | ErrorPage n _ \<Rightarrow> n)"

text \<open>What can be observed of the log directory: whether it is there, and a file's bytes.\<close>

fun is_directory :: "log_dir \<Rightarrow> bool" where
  "is_directory (Directory _) = True"
| "is_directory _ = False"

definition read_file :: "log_dir \<Rightarrow> string \<Rightarrow> string option" where
  "read_file d p = (case d of Directory files \<Rightarrow> files p | _ \<Rightarrow> None)"

text \<open>The text that the \<^verbatim>\<open>payload\<close> property adds to a log line: none when it is \<^verbatim>\<open>undefined\<close>.\<close>

definition payload_text :: "jsval \<Rightarrow> string" where
  "payload_text p =
     (case serialize p of None \<Rightarrow> [] | Some t \<Rightarrow> '','' @ quote ''payload'' @ '':'' @ t)"

section \<open>The customer-flow server\<close>

text \<open>
  \<^verbatim>\<open>stripe-express-IAP-customer-flow/server.js\<close> has a \<^verbatim>\<open>POST /webhook\<close> handler of its own
  (lines 60 to 96): it calls \<^verbatim>\<open>constructEvent\<close> on \<^verbatim>\<open>req.body\<close> for every request, keeps no
  array and writes no log. Its \<^verbatim>\<open>switch\<close> logs a property of \<^verbatim>\<open>event.data.object\<close>.
  In this server \<^verbatim>\<open>express.json()\<close> (line 9) runs before the route: a JSON request
  reaches the handler with \<^verbatim>\<open>req.body\<close> already parsed (one whose body is not JSON is
  answered by that middleware and does not reach it), and the route's
  \<^verbatim>\<open>bodyParser.raw\<close> leaves a parsed body as it is: the handler is never given a Buffer.
\<close>

definition log_object_property :: "string \<Rightarrow> string \<Rightarrow> jsval \<Rightarrow> js_error + console_line" where
  "log_object_property label k event =
     (case event_data_object event of
        Inl err \<Rightarrow> Inl err
      | Inr obj \<Rightarrow>
          (case get_prop obj k of
             Inl err \<Rightarrow> Inl err
           | Inr v \<Rightarrow> Inr (ConsoleLog [Text label, Val v])))"

definition customer_flow_dispatch :: "jsval \<Rightarrow> js_error + console_line" where
  "customer_flow_dispatch event =
     (case get_prop event ''type'' of
        Inl err \<Rightarrow> Inl err
      | Inr t \<Rightarrow>
          if t = JStr ''checkout.session.completed''
            then log_object_property ''Checkout Session Completed:'' ''id'' event
          else if t = JStr ''customer.subscription.created''
            then log_object_property ''Subscription Created:'' ''id'' event
          else if t = JStr ''customer.subscription.updated''
            then log_object_property ''Subscription Updated:'' ''id'' event
          else if t = JStr ''customer.subscription.deleted''
            then log_object_property ''Subscription Canceled:'' ''id'' event
          else if t = JStr ''invoice.payment_succeeded''
            then log_object_property ''Payment Succeeded for:'' ''customer'' event
          else
            (case to_string t of
               Inl err \<Rightarrow> Inl err
             | Inr text \<Rightarrow> Inr (ConsoleLog [Text (''Unhandled event type: '' @ text)])))"

definition customer_flow_webhook_post ::
  "env \<Rightarrow> string option \<Rightarrow> req_body \<Rightarrow> response \<times> console_line list" where
  "customer_flow_webhook_post e sig body =
     (case constructEvent e body sig (STRIPE_WEBHOOK_SECRET e) of
        Inl err \<Rightarrow>
          (Send 400 (''Webhook Error: '' @ message err),
           [ConsoleError [Text ''Webhook signature verification failed:'', Text (message err)]])
      | Inr event \<Rightarrow>
          (case customer_flow_dispatch event of
             Inl err \<Rightarrow> (ErrorPage 500 err, [])
           | Inr line \<Rightarrow> (SendJson 200 (JObj [(''received'', JBool True)]), [line])))"

section \<open>Example inputs\<close>

text \<open>
  The event of the specification's scenario, and events that lack or vary a field.
\<close>

definition example_event :: jsval where
  "example_event =
     JObj [(''id'', JStr ''evt_1''), (''type'', JStr ''payment_intent.succeeded''),
           (''data'', JObj [(''object'', JObj [(''id'', JStr ''pi_1'')])])]"

definition event_without_data :: jsval where
  "event_without_data =
     JObj [(''id'', JStr ''evt_1''), (''type'', JStr ''payment_intent.succeeded'')]"

definition event_without_object :: jsval where
  "event_without_object =
     JObj [(''id'', JStr ''evt_1''), (''type'', JStr ''payment_intent.succeeded''),
           (''data'', JObj [])]"

definition event_falsy_data :: jsval where
  "event_falsy_data =
     JObj [(''id'', JStr ''evt_1''), (''type'', JStr ''charge.failed''), (''data'', JBool False)]"

definition event_empty_data :: jsval where
  "event_empty_data =
     JObj [(''id'', JStr ''evt_1''), (''type'', JStr ''charge.failed''), (''data'', JObj [])]"

definition event_unprintable_type :: jsval where
  "event_unprintable_type =
     JObj [(''id'', JStr ''evt_1''), (''type'', JObj [(''toString'', JNum 0)]),
           (''data'', JObj [(''object'', JObj [])])]"

definition event_absent_id_falsy_data :: jsval where
  "event_absent_id_falsy_data = JObj [(''type'', JStr ''charge.failed''), (''data'', JBool False)]"

definition event_empty_id_falsy_data :: jsval where
  "event_empty_id_falsy_data =
     JObj [(''id'', JStr []), (''type'', JStr ''charge.failed''), (''data'', JBool False)]"

definition event_absent_id_and_type :: jsval where
  "event_absent_id_and_type = JObj [(''data'', JObj [(''object'', JObj [])])]"

definition event_falsy_id :: jsval where
  "event_falsy_id =
     JObj [(''id'', JStr []), (''type'', JNum 0), (''data'', JObj [(''object'', JObj [])])]"

text \<open>
  Stand-ins for the two library functions on the inputs of the examples: a
  \<^verbatim>\<open>JSON.parse\<close> that knows one text, the serialisation of \<open>v\<close>, and refuses every
  other, and a \<^verbatim>\<open>constructEvent\<close> for which one signature header matches the Buffer of
  that text under one secret, and nothing matches a body that is not a Buffer.
\<close>

definition parse_only :: "jsval \<Rightarrow> string \<Rightarrow> js_error + jsval" where
  "parse_only v text =
     (if text = JSON_stringify v then Inr v else Inl (SyntaxError ''Unexpected token''))"

definition signature_mismatch :: js_error where
  "signature_mismatch =
     LibraryError ''No signatures found matching the expected signature for payload''"

definition accept_signed ::
  "jsval \<Rightarrow> string \<Rightarrow> string \<Rightarrow> req_body \<Rightarrow> string option \<Rightarrow> string option \<Rightarrow> js_error + jsval" where
  "accept_signed v header secret body sig key =
     (if body = Buffer (JSON_stringify v) \<and> sig = Some header \<and> key = Some secret
      then Inr v else Inl signature_mismatch)"

definition example_env :: "string option \<Rightarrow> jsval \<Rightarrow> env" where
  "example_env secret v =
     \<lparr>STRIPE_WEBHOOK_SECRET = secret,
      constructEvent = accept_signed v ''t=1,v1=5257a869'' ''whsec_1'',
      JSON_parse = parse_only v\<rparr>"

text \<open>
  A log file that has reached the threshold, a compressor that stores its input behind
  gzip's two magic bytes, and its inverse.
\<close>

definition full_log :: string where
  "full_log = replicate MAX_LOG_BYTES (CHR ''x'')"

definition full_log_dir :: log_dir where
  "full_log_dir = Directory [LOG_FILE \<mapsto> full_log]"

definition small_log_dir :: log_dir where
  "small_log_dir = Directory [LOG_FILE \<mapsto> ''{}'' @ [newline]]"

definition example_gzip :: "string \<Rightarrow> string" where
  "example_gzip c = [CHR 0x1F, CHR 0x8B] @ c"

definition example_gunzip :: "string \<Rightarrow> string" where
  "example_gunzip z = drop 2 z"


section \<open>The ring buffer\<close>

lemma keep_last_100_append:
  "keep_last_100 (keep_last_100 xs @ ys) = keep_last_100 (xs @ ys)"
proof (cases "length xs \<le> 100")
  case True
  then show ?thesis by (simp add: keep_last_100_def)
next
  case False
  then have "length xs + length ys - (length xs - 100 + 100) + (length xs - 100)
             = length xs + length ys - 100"
    by arith
  with False show ?thesis by (simp add: keep_last_100_def)
qed

lemma length_keep_last_100: "length (keep_last_100 xs) \<le> 100"
  by (simp add: keep_last_100_def)

lemma keep_last_100_idem: "length xs \<le> 100 \<Longrightarrow> keep_last_100 xs = xs"
  by (simp add: keep_last_100_def)

lemma length_ring_push: "length (ring_push buf r) \<le> 100"
  by (simp add: ring_push_def length_keep_last_100)

lemma foldl_ring_push:
  "keep_last_100 (foldl ring_push buf rs) = keep_last_100 (buf @ rs)"
proof (induction rs arbitrary: buf)
  case Nil
  show ?case by simp
next
  case (Cons r rs)
  have "keep_last_100 (foldl ring_push buf (r # rs)) = keep_last_100 (ring_push buf r @ rs)"
    using Cons.IH [of "ring_push buf r"] by simp
  also have "\<dots> = keep_last_100 (keep_last_100 (buf @ [r]) @ rs)"
    by (simp add: ring_push_def push_def)
  also have "\<dots> = keep_last_100 (buf @ r # rs)"
    by (simp add: keep_last_100_append)
  finally show ?case .
qed

lemma length_foldl_ring_push:
  "rs \<noteq> [] \<Longrightarrow> length (foldl ring_push buf rs) \<le> 100"
proof (induction rs arbitrary: buf rule: rev_induct)
  case Nil
  then show ?case by simp
next
  case (snoc r rs)
  show ?case by (simp add: length_ring_push)
qed

lemma foldl_ring_push_long:
  assumes long: "100 < length rs"
  shows "foldl ring_push buf rs = drop (length rs - 100) rs"
proof -
  from long have "rs \<noteq> []" by auto
  then have "length (foldl ring_push buf rs) \<le> 100"
    by (rule length_foldl_ring_push)
  then have "foldl ring_push buf rs = keep_last_100 (foldl ring_push buf rs)"
    by (simp add: keep_last_100_idem)
  also have "\<dots> = keep_last_100 (buf @ rs)"
    by (rule foldl_ring_push)
  also have "\<dots> = drop (length rs - 100) rs"
    using long by (simp add: keep_last_100_def)
  finally show ?thesis .
qed

text \<open>
  C4. After more than 100 pushes the array holds exactly 100 records, and they are the
  last 100 pushed, in the order of their arrival, whatever the array held before.
\<close>

theorem ring_buffer_keeps_last_100:
  "100 < length rs \<Longrightarrow>
     length (foldl ring_push buf rs) = 100 \<and>
     foldl ring_push buf rs = drop (length rs - 100) rs"
proof -
  assume long: "100 < length rs"
  then have "foldl ring_push buf rs = drop (length rs - 100) rs"
    by (rule foldl_ring_push_long)
  with long show ?thesis by simp
qed

theorem ring_buffer_keeps_last_100_witness:
  "100 < length (map (\<lambda>n. JNum (int n)) [0..<103]) \<and>
   length (foldl ring_push [] (map (\<lambda>n. JNum (int n)) [0..<103])) = 100 \<and>
   foldl ring_push [] (map (\<lambda>n. JNum (int n)) [0..<103]) = map (\<lambda>n. JNum (int n)) [3..<103]"
  using ring_buffer_keeps_last_100 [of "map (\<lambda>n. JNum (int n)) [0..<103]" "[]"]
  by (simp add: drop_map)


section \<open>The webhook handler\<close>

lemma webhook_post_rejected:
  "verify e sig body = Inl err \<Longrightarrow>
     webhook_post e now sig body s =
       (Send 400 (''Webhook Error: '' @ message err),
        s\<lparr>console := console s @
            [ConsoleError [Text ''Webhook signature verification failed:'', Text (message err)]]\<rparr>)"
  by (simp add: webhook_post_def)

lemma webhook_post_accepted:
  "verify e sig body = Inr (event, line) \<Longrightarrow> webhook_record now event = Inr r \<Longrightarrow>
   dispatch event = Inr line' \<Longrightarrow>
     webhook_post e now sig body s =
       (SendJson 200 (JObj [(''received'', JBool True)]),
        s\<lparr>receivedWebhooks := ring_push (receivedWebhooks s) r,
          pending := pending s @ [event],
          console := console s @ [line, line']\<rparr>)"
  by (simp add: webhook_post_def ring_push_def)

text \<open>
  The record can be built exactly when \<^verbatim>\<open>event.data\<close> is neither \<^verbatim>\<open>undefined\<close> nor
  \<^verbatim>\<open>null\<close>.
\<close>

lemma webhook_record_total:
  "get_prop event ''data'' = Inr d \<Longrightarrow> d \<noteq> JUndefined \<Longrightarrow> d \<noteq> JNull \<Longrightarrow>
     \<exists>r. webhook_record now event = Inr r"
  by (cases event; cases d) (simp_all add: webhook_record_def)

lemma stringify_example_event:
  "''{oops'' \<noteq> JSON_stringify example_event"
  "''[object Object]'' \<noteq> JSON_stringify example_event"
  by (simp_all add: JSON_stringify_def example_event_def quote_def)

text \<open>What the fallback branch parses.\<close>

lemma body_toString_cases:
  "body_toString (Buffer bytes) = Inr bytes"
  "body_toString (Parsed (JObj [])) = Inr ''[object Object]''"
  "body_toString Undefined =
     Inl (TypeError ''Cannot read properties of undefined (reading toString)'')"
  by (simp_all add: body_toString_def)

text \<open>
  C1, as amended. In the server with the log pipeline, for a request that reaches the
  handler: when the secret and the signature header are both non-empty strings, the
  request is accepted only with the event that \<^verbatim>\<open>constructEvent\<close> returned for
  \<^verbatim>\<open>req.body\<close>, the header and the secret, and an error of \<^verbatim>\<open>constructEvent\<close> is
  answered with status 400. When either is missing or empty, \<^verbatim>\<open>constructEvent\<close> has no
  part in the result: if the request's Content-Type is \<^verbatim>\<open>application/json\<close>, so that
  \<^verbatim>\<open>req.body\<close> holds its raw bytes, their text is parsed as JSON, the parsed value is the
  accepted event and a parse error is answered with status 400; if it is not,
  \<^verbatim>\<open>req.body\<close> is \<^verbatim>\<open>undefined\<close> or \<^verbatim>\<open>{}\<close>, the bytes are not parsed, and the request is
  answered with status 400 (for \<^verbatim>\<open>{}\<close>: because \<^verbatim>\<open>JSON.parse\<close> refuses the text
  \<^verbatim>\<open>[object Object]\<close>). The customer-flow server has no such fallback: whatever the
  secret, the header and \<^verbatim>\<open>req.body\<close>, an error of \<^verbatim>\<open>constructEvent\<close> is answered with
  status 400.
\<close>

theorem verification_gate:
  "(truthy (of_opt (STRIPE_WEBHOOK_SECRET e)) \<and> truthy (of_opt sig) \<and>
      constructEvent e body sig (STRIPE_WEBHOOK_SECRET e) = Inl err \<longrightarrow>
        fst (webhook_post e now sig body s) = Send 400 (''Webhook Error: '' @ message err)) \<and>
   (truthy (of_opt (STRIPE_WEBHOOK_SECRET e)) \<and> truthy (of_opt sig) \<and>
      verify e sig body = Inr (event, line) \<longrightarrow>
        constructEvent e body sig (STRIPE_WEBHOOK_SECRET e) = Inr event) \<and>
   (\<not> (truthy (of_opt (STRIPE_WEBHOOK_SECRET e)) \<and> truthy (of_opt sig)) \<and>
      JSON_parse e bytes = Inr event \<longrightarrow>
        verify e sig (bodyParser_raw True unread bytes) =
          Inr (event, ConsoleLog [Text ''No signature provided (manual/local test)''])) \<and>
   (\<not> (truthy (of_opt (STRIPE_WEBHOOK_SECRET e)) \<and> truthy (of_opt sig)) \<and>
      JSON_parse e bytes = Inl err \<longrightarrow>
        fst (webhook_post e now sig (bodyParser_raw True unread bytes) s) =
          Send 400 (''Webhook Error: '' @ message err)) \<and>
   (\<not> (truthy (of_opt (STRIPE_WEBHOOK_SECRET e)) \<and> truthy (of_opt sig)) \<longrightarrow>
        fst (webhook_post e now sig (bodyParser_raw False Undefined bytes) s) =
          Send 400 (''Webhook Error: '' @
                    ''Cannot read properties of undefined (reading toString)'')) \<and>
   (\<not> (truthy (of_opt (STRIPE_WEBHOOK_SECRET e)) \<and> truthy (of_opt sig)) \<and>
      JSON_parse e ''[object Object]'' = Inl err \<longrightarrow>
        fst (webhook_post e now sig (bodyParser_raw False (Parsed (JObj [])) bytes) s) =
          Send 400 (''Webhook Error: '' @ message err)) \<and>
   (\<not> (truthy (of_opt (STRIPE_WEBHOOK_SECRET e)) \<and> truthy (of_opt sig)) \<longrightarrow>
        verify (e\<lparr>constructEvent := c\<rparr>) sig body = verify e sig body) \<and>
   (constructEvent e body sig (STRIPE_WEBHOOK_SECRET e) = Inl err \<longrightarrow>
        fst (customer_flow_webhook_post e sig body) = Send 400 (''Webhook Error: '' @ message err))"
proof (intro conjI impI)
  assume "truthy (of_opt (STRIPE_WEBHOOK_SECRET e)) \<and> truthy (of_opt sig) \<and>
      constructEvent e body sig (STRIPE_WEBHOOK_SECRET e) = Inl err"
  then have "verify e sig body = Inl err" by (simp add: verify_def)
  then show "fst (webhook_post e now sig body s) = Send 400 (''Webhook Error: '' @ message err)"
    by (simp add: webhook_post_rejected)
next
  assume "truthy (of_opt (STRIPE_WEBHOOK_SECRET e)) \<and> truthy (of_opt sig) \<and>
      verify e sig body = Inr (event, line)"
  then show "constructEvent e body sig (STRIPE_WEBHOOK_SECRET e) = Inr event"
    by (auto simp add: verify_def split: sum.splits)
next
  assume "\<not> (truthy (of_opt (STRIPE_WEBHOOK_SECRET e)) \<and> truthy (of_opt sig)) \<and>
      JSON_parse e bytes = Inr event"
  then show "verify e sig (bodyParser_raw True unread bytes) =
          Inr (event, ConsoleLog [Text ''No signature provided (manual/local test)''])"
    by (auto simp add: verify_def bodyParser_raw_def body_toString_cases)
next
  assume "\<not> (truthy (of_opt (STRIPE_WEBHOOK_SECRET e)) \<and> truthy (of_opt sig)) \<and>
      JSON_parse e bytes = Inl err"
  then have "verify e sig (bodyParser_raw True unread bytes) = Inl err"
    by (auto simp add: verify_def bodyParser_raw_def body_toString_cases)
  then show "fst (webhook_post e now sig (bodyParser_raw True unread bytes) s) =
      Send 400 (''Webhook Error: '' @ message err)"
    by (simp add: webhook_post_rejected)
next
  assume "\<not> (truthy (of_opt (STRIPE_WEBHOOK_SECRET e)) \<and> truthy (of_opt sig))"
  then have "verify e sig (bodyParser_raw False Undefined bytes) =
      Inl (TypeError ''Cannot read properties of undefined (reading toString)'')"
    by (auto simp add: verify_def bodyParser_raw_def body_toString_cases)
  then show "fst (webhook_post e now sig (bodyParser_raw False Undefined bytes) s) =
      Send 400 (''Webhook Error: '' @ ''Cannot read properties of undefined (reading toString)'')"
    by (simp add: webhook_post_rejected)
next
  assume "\<not> (truthy (of_opt (STRIPE_WEBHOOK_SECRET e)) \<and> truthy (of_opt sig)) \<and>
      JSON_parse e ''[object Object]'' = Inl err"
  then have "verify e sig (bodyParser_raw False (Parsed (JObj [])) bytes) = Inl err"
    by (auto simp add: verify_def bodyParser_raw_def body_toString_cases)
  then show "fst (webhook_post e now sig (bodyParser_raw False (Parsed (JObj [])) bytes) s) =
      Send 400 (''Webhook Error: '' @ message err)"
    by (simp add: webhook_post_rejected)
next
  assume "\<not> (truthy (of_opt (STRIPE_WEBHOOK_SECRET e)) \<and> truthy (of_opt sig))"
  then show "verify (e\<lparr>constructEvent := c\<rparr>) sig body = verify e sig body"
    by (auto simp add: verify_def split: sum.splits)
next
  assume "constructEvent e body sig (STRIPE_WEBHOOK_SECRET e) = Inl err"
  then show "fst (customer_flow_webhook_post e sig body) =
      Send 400 (''Webhook Error: '' @ message err)"
    by (simp add: customer_flow_webhook_post_def)
qed

theorem verification_gate_witness:
  "truthy (of_opt (STRIPE_WEBHOOK_SECRET (example_env (Some ''whsec_1'') example_event))) \<and>
   truthy (of_opt (Some ''t=0,v1=00'')) \<and>
   constructEvent (example_env (Some ''whsec_1'') example_event)
     (Buffer (JSON_stringify example_event)) (Some ''t=0,v1=00'') (Some ''whsec_1'')
     = Inl signature_mismatch \<and>
   fst (webhook_post (example_env (Some ''whsec_1'') example_event) ''2026-01-01T00:00:00.000Z''
          (Some ''t=0,v1=00'') (Buffer (JSON_stringify example_event)) (initial NoEntry))
     = Send 400 (''Webhook Error: '' @ message signature_mismatch) \<and>
   verify (example_env (Some ''whsec_1'') example_event) (Some ''t=1,v1=5257a869'')
          (Buffer (JSON_stringify example_event))
     = Inr (example_event,
            ConsoleLog [Text ''Verified event from Stripe:'', Val (JStr ''payment_intent.succeeded'')]) \<and>
   constructEvent (example_env (Some ''whsec_1'') example_event)
     (Buffer (JSON_stringify example_event)) (Some ''t=1,v1=5257a869'') (Some ''whsec_1'')
     = Inr example_event \<and>
   \<not> truthy (of_opt (STRIPE_WEBHOOK_SECRET (example_env None example_event))) \<and>
   JSON_parse (example_env None example_event) (JSON_stringify example_event) = Inr example_event \<and>
   verify (example_env None example_event) (Some ''t=0,v1=00'')
          (bodyParser_raw True Undefined (JSON_stringify example_event))
     = Inr (example_event, ConsoleLog [Text ''No signature provided (manual/local test)'']) \<and>
   JSON_parse (example_env None example_event) ''{oops'' = Inl (SyntaxError ''Unexpected token'') \<and>
   fst (webhook_post (example_env None example_event) ''2026-01-01T00:00:00.000Z''
          None (bodyParser_raw True Undefined ''{oops'') (initial NoEntry))
     = Send 400 (''Webhook Error: '' @ message (SyntaxError ''Unexpected token'')) \<and>
   fst (webhook_post (example_env None example_event) ''2026-01-01T00:00:00.000Z''
          None (bodyParser_raw False Undefined (JSON_stringify example_event)) (initial NoEntry))
     = Send 400 (''Webhook Error: '' @ ''Cannot read properties of undefined (reading toString)'') \<and>
   JSON_parse (example_env None example_event) ''[object Object]''
     = Inl (SyntaxError ''Unexpected token'') \<and>
   fst (webhook_post (example_env None example_event) ''2026-01-01T00:00:00.000Z''
          None (bodyParser_raw False (Parsed (JObj [])) (JSON_stringify example_event))
          (initial NoEntry))
     = Send 400 (''Webhook Error: '' @ message (SyntaxError ''Unexpected token'')) \<and>
   constructEvent (example_env (Some ''whsec_1'') example_event) (Parsed example_event)
     (Some ''t=0,v1=00'') (Some ''whsec_1'') = Inl signature_mismatch \<and>
   status_of (fst (customer_flow_webhook_post (example_env (Some ''whsec_1'') example_event)
          (Some ''t=0,v1=00'') (Parsed example_event))) = 400"
  using
    verification_gate [where e = "example_env (Some ''whsec_1'') example_event"
      and sig = "Some ''t=0,v1=00''" and body = "Buffer (JSON_stringify example_event)"
      and err = signature_mismatch and now = "''2026-01-01T00:00:00.000Z''"
      and s = "initial NoEntry"]
    verification_gate [where e = "example_env (Some ''whsec_1'') example_event"
      and sig = "Some ''t=1,v1=5257a869''" and body = "Buffer (JSON_stringify example_event)"
      and event = example_event
      and line = "ConsoleLog [Text ''Verified event from Stripe:'',
                              Val (JStr ''payment_intent.succeeded'')]"]
    verification_gate [where e = "example_env None example_event"
      and sig = "Some ''t=0,v1=00''" and bytes = "JSON_stringify example_event"
      and unread = Undefined and event = example_event]
    verification_gate [where e = "example_env None example_event" and sig = None
      and bytes = "''{oops''" and unread = Undefined and err = "SyntaxError ''Unexpected token''"
      and now = "''2026-01-01T00:00:00.000Z''" and s = "initial NoEntry"]
    verification_gate [where e = "example_env None example_event" and sig = None
      and bytes = "JSON_stringify example_event" and err = "SyntaxError ''Unexpected token''"
      and now = "''2026-01-01T00:00:00.000Z''" and s = "initial NoEntry"]
    verification_gate [where e = "example_env (Some ''whsec_1'') example_event"
      and sig = "Some ''t=0,v1=00''" and body = "Parsed example_event"
      and err = signature_mismatch]
    stringify_example_event
  by (simp add: example_env_def accept_signed_def parse_only_def verify_def example_event_def
      status_of_def)

text \<open>
  Against C1 as it is written. The secret is configured and the request carries a
  \<^verbatim>\<open>stripe-signature\<close> header, which is empty: \<^verbatim>\<open>constructEvent\<close> refuses that
  header, yet the handler of the pipeline server parses the body and answers 200. With
  neither a secret nor a header, a request whose bytes are the same JSON text but whose
  Content-Type is not \<^verbatim>\<open>application/json\<close> is not parsed: it is answered 400, with
  body-parser 1 (\<^verbatim>\<open>{}\<close>) and with body-parser 2 (\<^verbatim>\<open>undefined\<close>). And with neither a
  secret nor a header, the customer-flow server does not parse the body: it answers 400.
\<close>

theorem empty_signature_skips_verification:
  "STRIPE_WEBHOOK_SECRET (example_env (Some ''whsec_1'') example_event) = Some ''whsec_1'' \<and>
   constructEvent (example_env (Some ''whsec_1'') example_event)
     (Buffer (JSON_stringify example_event)) (Some []) (Some ''whsec_1'') = Inl signature_mismatch \<and>
   verify (example_env (Some ''whsec_1'') example_event) (Some [])
     (bodyParser_raw True Undefined (JSON_stringify example_event))
     = Inr (example_event, ConsoleLog [Text ''No signature provided (manual/local test)'']) \<and>
   fst (webhook_post (example_env (Some ''whsec_1'') example_event) ''2026-01-01T00:00:00.000Z''
          (Some []) (bodyParser_raw True Undefined (JSON_stringify example_event)) (initial NoEntry))
     = SendJson 200 (JObj [(''received'', JBool True)]) \<and>
   JSON_parse (example_env None example_event) (JSON_stringify example_event) = Inr example_event \<and>
   fst (webhook_post (example_env None example_event) ''2026-01-01T00:00:00.000Z'' None
          (bodyParser_raw False (Parsed (JObj [])) (JSON_stringify example_event)) (initial NoEntry))
     = Send 400 (''Webhook Error: '' @ message (SyntaxError ''Unexpected token'')) \<and>
   fst (webhook_post (example_env None example_event) ''2026-01-01T00:00:00.000Z'' None
          (bodyParser_raw False Undefined (JSON_stringify example_event)) (initial NoEntry))
     = Send 400 (''Webhook Error: '' @ ''Cannot read properties of undefined (reading toString)'') \<and>
   status_of (fst (customer_flow_webhook_post (example_env None example_event) None
          (Parsed example_event))) = 400"
  using stringify_example_event
  by (simp add: example_env_def accept_signed_def parse_only_def verify_def webhook_post_def
      webhook_record_def dispatch_def event_data_object_def example_event_def
      customer_flow_webhook_post_def bodyParser_raw_def body_toString_def status_of_def)

text \<open>
  C2 fails on the code. An event that \<^verbatim>\<open>JSON.parse\<close> accepted and that has no \<^verbatim>\<open>data\<close>
  property makes \<^verbatim>\<open>event.data.object\<close> (line 114) throw a TypeError outside the
  \<^verbatim>\<open>try\<close>: nothing is pushed, no log is started, and the answer is Express's 500,
  not status 200 with \<^verbatim>\<open>received: true\<close>.
\<close>

theorem event_without_data_answers_500:
  "webhook_post (example_env None event_without_data) now None
       (Buffer (JSON_stringify event_without_data)) s =
     (ErrorPage 500 (TypeError ''Cannot read properties of undefined (reading object)''),
      s\<lparr>console := console s @ [ConsoleLog [Text ''No signature provided (manual/local test)'']]\<rparr>)"
  by (simp add: example_env_def parse_only_def verify_def webhook_post_def body_toString_def
      webhook_record_def event_without_data_def)

text \<open>
  The dispatch can fail as well, after the record was pushed and the log was started:
  \<^verbatim>\<open>event.data.object.id\<close> (line 130) on an event whose \<^verbatim>\<open>data\<close> has no \<^verbatim>\<open>object\<close>, and
  the template literal of line 136 on an event whose \<^verbatim>\<open>type\<close> is an object that cannot be
  converted to a string.
\<close>

lemma event_without_object_answers_500:
  "webhook_post (example_env None event_without_object) now None
       (Buffer (JSON_stringify event_without_object)) s =
     (ErrorPage 500 (TypeError ''Cannot read properties of undefined (reading id)''),
      s\<lparr>receivedWebhooks := ring_push (receivedWebhooks s)
            (JObj [(''id'', JStr ''evt_1''), (''type'', JStr ''payment_intent.succeeded''),
                   (''created'', JStr now), (''data'', JUndefined)]),
        pending := pending s @ [event_without_object],
        console := console s @ [ConsoleLog [Text ''No signature provided (manual/local test)'']]\<rparr>)"
  by (simp add: example_env_def parse_only_def verify_def webhook_post_def ring_push_def
      body_toString_def webhook_record_def dispatch_def event_data_object_def
      event_without_object_def)

lemma event_unprintable_type_answers_500:
  "webhook_post (example_env None event_unprintable_type) now None
       (Buffer (JSON_stringify event_unprintable_type)) s =
     (ErrorPage 500 (TypeError ''Cannot convert object to primitive value''),
      s\<lparr>receivedWebhooks := ring_push (receivedWebhooks s)
            (JObj [(''id'', JStr ''evt_1''), (''type'', JObj [(''toString'', JNum 0)]),
                   (''created'', JStr now), (''data'', JObj [])]),
        pending := pending s @ [event_unprintable_type],
        console := console s @ [ConsoleLog [Text ''No signature provided (manual/local test)'']]\<rparr>)"
  by (simp add: example_env_def parse_only_def verify_def webhook_post_def ring_push_def
      body_toString_def webhook_record_def dispatch_def event_data_object_def
      event_unprintable_type_def)

text \<open>
  C3. When the \<^verbatim>\<open>try\<close> block throws (the verification, the reading of the verified
  event's type, \<^verbatim>\<open>req.body.toString()\<close> or the fallback parse), the answer is status 400
  with the error's message; the array, the log directory and the started log calls are
  as before, and the console has gained the one line that reports the failure: nothing
  was dispatched.
\<close>

theorem rejected_request_changes_nothing:
  "verify e sig body = Inl err \<Longrightarrow>
     fst (webhook_post e now sig body s) = Send 400 (''Webhook Error: '' @ message err) \<and>
     receivedWebhooks (snd (webhook_post e now sig body s)) = receivedWebhooks s \<and>
     logs (snd (webhook_post e now sig body s)) = logs s \<and>
     pending (snd (webhook_post e now sig body s)) = pending s \<and>
     console (snd (webhook_post e now sig body s)) =
       console s @ [ConsoleError [Text ''Webhook signature verification failed:'',
                                  Text (message err)]]"
  by (simp add: webhook_post_rejected)

theorem rejected_request_changes_nothing_witness:
  "verify (example_env (Some ''whsec_1'') example_event) (Some ''t=0,v1=00'')
      (Buffer (JSON_stringify example_event)) = Inl signature_mismatch \<and>
   fst (webhook_post (example_env (Some ''whsec_1'') example_event) ''2026-01-01T00:00:00.000Z''
          (Some ''t=0,v1=00'') (Buffer (JSON_stringify example_event)) (initial NoEntry))
     = Send 400 (''Webhook Error: '' @ message signature_mismatch) \<and>
   receivedWebhooks (snd (webhook_post (example_env (Some ''whsec_1'') example_event)
          ''2026-01-01T00:00:00.000Z'' (Some ''t=0,v1=00'') (Buffer (JSON_stringify example_event))
          (initial NoEntry))) = [] \<and>
   logs (snd (webhook_post (example_env (Some ''whsec_1'') example_event)
          ''2026-01-01T00:00:00.000Z'' (Some ''t=0,v1=00'') (Buffer (JSON_stringify example_event))
          (initial NoEntry))) = NoEntry \<and>
   pending (snd (webhook_post (example_env (Some ''whsec_1'') example_event)
          ''2026-01-01T00:00:00.000Z'' (Some ''t=0,v1=00'') (Buffer (JSON_stringify example_event))
          (initial NoEntry))) = []"
proof -
  have rejected: "verify (example_env (Some ''whsec_1'') example_event) (Some ''t=0,v1=00'')
      (Buffer (JSON_stringify example_event)) = Inl signature_mismatch"
    by (simp add: example_env_def accept_signed_def verify_def)
  show ?thesis
    using rejected
      rejected_request_changes_nothing [OF rejected, of "''2026-01-01T00:00:00.000Z''"
        "initial NoEntry"]
    by (simp add: initial_def)
qed

text \<open>When the \<^verbatim>\<open>try\<close> block throws, in terms of what the handler was given.\<close>

lemma verify_fails_iff:
  "verify e sig body = Inl err \<longleftrightarrow>
     (if truthy (of_opt (STRIPE_WEBHOOK_SECRET e)) \<and> truthy (of_opt sig)
      then constructEvent e body sig (STRIPE_WEBHOOK_SECRET e) = Inl err \<or>
           (\<exists>event. constructEvent e body sig (STRIPE_WEBHOOK_SECRET e) = Inr event \<and>
                    get_prop event ''type'' = Inl err)
      else body_toString body = Inl err \<or>
           (\<exists>text. body_toString body = Inr text \<and> JSON_parse e text = Inl err))"
  by (auto simp add: verify_def split: sum.splits)


section \<open>The log entry\<close>

lemma char_of_not_newline:
  "n mod 256 \<noteq> 10 \<Longrightarrow> char_of (n::nat) \<noteq> CHR 0x0A"
  "n mod 256 \<noteq> 10 \<Longrightarrow> CHR 0x0A \<noteq> char_of (n::nat)"
proof -
  assume ne: "n mod 256 \<noteq> 10"
  show "char_of n \<noteq> CHR 0x0A"
  proof
    assume "char_of n = CHR 0x0A"
    then have "of_char (char_of n :: char) = (of_char (CHR 0x0A) :: nat)" by simp
    then have "n mod 256 = 10" by (simp add: of_char_of)
    with ne show False by simp
  qed
  then show "CHR 0x0A \<noteq> char_of n" by (rule not_sym)
qed

lemma hex_digit_not_newline: "n < 16 \<Longrightarrow> hex_digit n \<noteq> newline"
  by (simp add: hex_digit_def newline_def char_of_not_newline)

lemma quote_char_no_newline: "newline \<notin> set (quote_char c)"
proof (cases "(of_char c :: nat) < 32")
  case True
  then have "(of_char c :: nat) div 16 < 16" "(of_char c :: nat) mod 16 < 16" by simp_all
  then have "hex_digit ((of_char c :: nat) div 16) \<noteq> newline"
            "hex_digit ((of_char c :: nat) mod 16) \<noteq> newline"
    by (simp_all only: hex_digit_not_newline not_False_eq_True)
  then show ?thesis
    by (simp add: quote_char_def) (simp add: newline_def backslash_def dquote_def)
next
  case False
  then show ?thesis
    by (simp add: quote_char_def) (simp add: newline_def backslash_def dquote_def)
qed

lemma quote_no_newline: "newline \<notin> set (quote s)"
  using quote_char_no_newline by (auto simp add: quote_def newline_def dquote_def)

lemma show_nat_no_newline: "newline \<notin> set (show_nat n)"
proof (induction n rule: show_nat.induct)
  case (1 n)
  show ?case
  proof (cases "n < 10")
    case True
    then have "show_nat n = [char_of (48 + n)]" by (simp add: show_nat.simps)
    with True show ?thesis by (simp add: newline_def char_of_not_newline)
  next
    case False
    then have eq: "show_nat n = show_nat (n div 10) @ [char_of (48 + n mod 10)]"
      by (subst show_nat.simps) simp
    have "n mod 10 < 10" by simp
    then have "(48 + n mod 10) mod 256 \<noteq> 10" by simp
    then have "newline \<noteq> char_of (48 + n mod 10)"
      unfolding newline_def by (rule char_of_not_newline(2))
    with False 1 eq show ?thesis by simp
  qed
qed

lemma show_int_no_newline: "newline \<notin> set (show_int i)"
  by (simp add: show_int_def show_nat_no_newline) (simp add: newline_def)

lemma join_comma_no_newline:
  "(\<And>t. t \<in> set ts \<Longrightarrow> newline \<notin> set t) \<Longrightarrow> newline \<notin> set (join_comma ts)"
  by (induction ts rule: join_comma.induct) (auto simp add: newline_def)

lemma serialize_no_newline:
  "(\<forall>t. serialize v = Some t \<longrightarrow> newline \<notin> set t)"
  "(\<forall>t \<in> set (serialize_elements xs). newline \<notin> set t)"
  "(\<forall>t \<in> set (serialize_properties kvs). newline \<notin> set t)"
proof (induction v and xs and kvs rule: serialize_serialize_elements_serialize_properties.induct)
  case (6 xs)
  then show ?case using join_comma_no_newline [of "serialize_elements xs"]
    by (auto simp add: newline_def)
next
  case (7 kvs)
  then show ?case using join_comma_no_newline [of "serialize_properties kvs"]
    by (auto simp add: newline_def)
next
  case (9 x xs)
  then show ?case by (auto simp add: newline_def split: option.splits)
next
  case (11 k v kvs)
  then show ?case using quote_no_newline [of k]
    by (auto simp add: newline_def split: option.splits)
qed (auto simp add: show_int_no_newline quote_no_newline, auto simp add: newline_def)

lemma JSON_stringify_no_newline: "v \<noteq> JUndefined \<Longrightarrow> newline \<notin> set (JSON_stringify v)"
  using serialize_no_newline(1) [of v]
  by (cases v) (auto simp add: JSON_stringify_def)

lemma serialize_defined: "v \<noteq> JUndefined \<Longrightarrow> serialize v = Some (JSON_stringify v)"
  by (cases v) (simp_all add: JSON_stringify_def)

lemma truthy_or_null_defined: "(if truthy v then v else JNull) \<noteq> JUndefined"
  by (cases v) simp_all

lemma get_prop_truthy: "truthy d \<Longrightarrow> \<exists>p. get_prop d k = Inr p"
  by (cases d) simp_all

lemma get_prop_defined: "v \<noteq> JUndefined \<Longrightarrow> v \<noteq> JNull \<Longrightarrow> \<exists>p. get_prop v k = Inr p"
  by (cases v) simp_all

lemma log_entry_eq:
  assumes "get_prop event ''id'' = Inr i" "get_prop event ''type'' = Inr t"
    "get_prop event ''data'' = Inr d"
    "if truthy d then get_prop d ''object'' = Inr p else p = event"
  shows "log_entry now event =
     Inr (JObj [(''receivedAt'', JStr now), (''id'', if truthy i then i else JNull),
                (''type'', if truthy t then t else JNull), (''payload'', p)])"
  using assms by (simp add: log_entry_def js_or_def split: if_splits)

lemma log_line_text:
  assumes "i \<noteq> JUndefined" "t \<noteq> JUndefined"
  shows "log_line (JObj [(''receivedAt'', JStr now), (''id'', i), (''type'', t), (''payload'', p)]) =
     ''{'' @ quote ''receivedAt'' @ '':'' @ quote now @ '','' @
            quote ''id'' @ '':'' @ JSON_stringify i @ '','' @
            quote ''type'' @ '':'' @ JSON_stringify t @ payload_text p @ ''}'' @ [newline]"
  using assms
  by (cases "serialize p")
     (simp_all add: log_line_def JSON_stringify_def [of "JObj _"] serialize_defined payload_text_def)

text \<open>
  C7, as amended. For every event that is neither \<^verbatim>\<open>undefined\<close> nor \<^verbatim>\<open>null\<close>, the
  entry is an object with the properties \<^verbatim>\<open>receivedAt\<close> (the clock's ISO text), \<^verbatim>\<open>id\<close>
  (the event's id when that is truthy, else \<^verbatim>\<open>null\<close>), \<^verbatim>\<open>type\<close> (likewise) and
  \<^verbatim>\<open>payload\<close>: the \<^verbatim>\<open>object\<close> of the event's data when the data is truthy, the whole
  event when the data is missing or falsy. Its line is the text of these properties
  between braces, a \<^verbatim>\<open>payload\<close> that is \<^verbatim>\<open>undefined\<close> being left out, followed by the
  one newline of the line.
\<close>

theorem log_entry_shape:
  "event \<noteq> JUndefined \<Longrightarrow> event \<noteq> JNull \<Longrightarrow>
   \<exists>i t d p.
     get_prop event ''id'' = Inr i \<and> get_prop event ''type'' = Inr t \<and>
     get_prop event ''data'' = Inr d \<and>
     (if truthy d then get_prop d ''object'' = Inr p else p = event) \<and>
     log_entry now event =
       Inr (JObj [(''receivedAt'', JStr now), (''id'', if truthy i then i else JNull),
                  (''type'', if truthy t then t else JNull), (''payload'', p)]) \<and>
     log_line (JObj [(''receivedAt'', JStr now), (''id'', if truthy i then i else JNull),
                     (''type'', if truthy t then t else JNull), (''payload'', p)]) =
       ''{'' @ quote ''receivedAt'' @ '':'' @ quote now @ '','' @
              quote ''id'' @ '':'' @ JSON_stringify (if truthy i then i else JNull) @ '','' @
              quote ''type'' @ '':'' @ JSON_stringify (if truthy t then t else JNull) @
              payload_text p @ ''}'' @ [newline] \<and>
     newline \<notin> set (JSON_stringify
       (JObj [(''receivedAt'', JStr now), (''id'', if truthy i then i else JNull),
              (''type'', if truthy t then t else JNull), (''payload'', p)]))"
proof -
  assume ev: "event \<noteq> JUndefined" "event \<noteq> JNull"
  obtain i where i: "get_prop event ''id'' = Inr i"
    using get_prop_defined [OF ev] by blast
  obtain t where t: "get_prop event ''type'' = Inr t"
    using get_prop_defined [OF ev] by blast
  obtain d where d: "get_prop event ''data'' = Inr d"
    using get_prop_defined [OF ev] by blast
  obtain p where p: "if truthy d then get_prop d ''object'' = Inr p else p = event"
    using get_prop_truthy [of d "''object''"] by (cases "truthy d") auto
  let ?i = "if truthy i then i else JNull" and ?t = "if truthy t then t else JNull"
  let ?entry = "JObj [(''receivedAt'', JStr now), (''id'', ?i), (''type'', ?t), (''payload'', p)]"
  have "log_entry now event = Inr ?entry"
    using i t d p by (rule log_entry_eq)
  moreover have "log_line ?entry =
       ''{'' @ quote ''receivedAt'' @ '':'' @ quote now @ '','' @
              quote ''id'' @ '':'' @ JSON_stringify ?i @ '','' @
              quote ''type'' @ '':'' @ JSON_stringify ?t @ payload_text p @ ''}'' @ [newline]"
    using truthy_or_null_defined [of i] truthy_or_null_defined [of t] by (rule log_line_text)
  moreover have "newline \<notin> set (JSON_stringify ?entry)"
    by (rule JSON_stringify_no_newline) simp
  ultimately show ?thesis using i t d p by blast
qed

theorem log_entry_shape_witness:
  "example_event \<noteq> JUndefined \<and> example_event \<noteq> JNull \<and>
   log_entry ''2026-01-01T00:00:00.000Z'' example_event =
     Inr (JObj [(''receivedAt'', JStr ''2026-01-01T00:00:00.000Z''), (''id'', JStr ''evt_1''),
                (''type'', JStr ''payment_intent.succeeded''),
                (''payload'', JObj [(''id'', JStr ''pi_1'')])]) \<and>
   newline \<notin> set (JSON_stringify
     (JObj [(''receivedAt'', JStr ''2026-01-01T00:00:00.000Z''), (''id'', JStr ''evt_1''),
            (''type'', JStr ''payment_intent.succeeded''),
            (''payload'', JObj [(''id'', JStr ''pi_1'')])]))"
  using log_entry_shape [of example_event "''2026-01-01T00:00:00.000Z''"]
  by (auto simp add: example_event_def)

text \<open>
  Against C7 as it is written. An event whose \<^verbatim>\<open>data\<close> is \<^verbatim>\<open>false\<close> has a data field, and
  its entry's payload is the whole event, not the data's \<^verbatim>\<open>object\<close>. An event whose
  \<^verbatim>\<open>data\<close> is an object without \<^verbatim>\<open>object\<close> gets a line with three fields: \<^verbatim>\<open>payload\<close> is
  not in it.
\<close>

theorem payload_is_not_always_the_data_object:
  "get_prop event_falsy_data ''data'' = Inr (JBool False) \<and>
   get_prop (JBool False) ''object'' = Inr JUndefined \<and>
   log_entry ''2026-01-01T00:00:00.000Z'' event_falsy_data =
     Inr (JObj [(''receivedAt'', JStr ''2026-01-01T00:00:00.000Z''), (''id'', JStr ''evt_1''),
                (''type'', JStr ''charge.failed''), (''payload'', event_falsy_data)]) \<and>
   get_prop event_empty_data ''data'' = Inr (JObj []) \<and>
   log_entry ''2026-01-01T00:00:00.000Z'' event_empty_data =
     Inr (JObj [(''receivedAt'', JStr ''2026-01-01T00:00:00.000Z''), (''id'', JStr ''evt_1''),
                (''type'', JStr ''charge.failed''), (''payload'', JUndefined)]) \<and>
   log_line (JObj [(''receivedAt'', JStr ''2026-01-01T00:00:00.000Z''), (''id'', JStr ''evt_1''),
                   (''type'', JStr ''charge.failed''), (''payload'', JUndefined)]) =
   log_line (JObj [(''receivedAt'', JStr ''2026-01-01T00:00:00.000Z''), (''id'', JStr ''evt_1''),
                   (''type'', JStr ''charge.failed'')])"
  by (simp add: event_falsy_data_def event_empty_data_def log_entry_def js_or_def log_line_def
      JSON_stringify_def)

text \<open>
  C10, as amended. When the event's \<^verbatim>\<open>id\<close> (or \<^verbatim>\<open>type\<close>) is falsy, the entry's \<^verbatim>\<open>id\<close> (or
  \<^verbatim>\<open>type\<close>) is \<^verbatim>\<open>null\<close>; a property that is missing reads as \<^verbatim>\<open>undefined\<close>, which is
  falsy too, so the entry's field is the same \<^verbatim>\<open>null\<close> for a missing property and for
  one that is there with an empty string, a zero, \<^verbatim>\<open>false\<close> or \<^verbatim>\<open>null\<close>. When the event's
  \<^verbatim>\<open>data\<close> is truthy, the whole entry, and so its line, is the same for any other event
  with the same \<^verbatim>\<open>data\<close> whose \<^verbatim>\<open>id\<close> and \<^verbatim>\<open>type\<close> are each the same or falsy where this
  event's is falsy: nothing in the log tells absence from falsy presence.
\<close>

theorem falsy_id_and_type_logged_as_null:
  "log_entry now event = Inr entry \<Longrightarrow>
   get_prop event ''id'' = Inr i \<Longrightarrow> get_prop event ''type'' = Inr t \<Longrightarrow>
     (\<not> truthy i \<longrightarrow> get_prop entry ''id'' = Inr JNull) \<and>
     (\<not> truthy t \<longrightarrow> get_prop entry ''type'' = Inr JNull) \<and>
     (\<forall>event' i' t' d.
        get_prop event ''data'' = Inr d \<and> truthy d \<and> get_prop event' ''data'' = Inr d \<and>
        get_prop event' ''id'' = Inr i' \<and> get_prop event' ''type'' = Inr t' \<and>
        (i' = i \<or> \<not> truthy i \<and> \<not> truthy i') \<and> (t' = t \<or> \<not> truthy t \<and> \<not> truthy t') \<longrightarrow>
          log_entry now event' = Inr entry)"
proof (intro conjI allI impI)
  assume "log_entry now event = Inr entry" "get_prop event ''id'' = Inr i"
    "get_prop event ''type'' = Inr t" "\<not> truthy i"
  then show "get_prop entry ''id'' = Inr JNull"
    by (auto simp add: log_entry_def js_or_def split: sum.splits if_splits)
next
  assume "log_entry now event = Inr entry" "get_prop event ''id'' = Inr i"
    "get_prop event ''type'' = Inr t" "\<not> truthy t"
  then show "get_prop entry ''type'' = Inr JNull"
    by (auto simp add: log_entry_def js_or_def split: sum.splits if_splits)
next
  fix event' i' t' d
  assume entry: "log_entry now event = Inr entry" and i: "get_prop event ''id'' = Inr i"
    and t: "get_prop event ''type'' = Inr t"
    and h: "get_prop event ''data'' = Inr d \<and> truthy d \<and> get_prop event' ''data'' = Inr d \<and>
        get_prop event' ''id'' = Inr i' \<and> get_prop event' ''type'' = Inr t' \<and>
        (i' = i \<or> \<not> truthy i \<and> \<not> truthy i') \<and> (t' = t \<or> \<not> truthy t \<and> \<not> truthy t')"
  from h have "js_or i' JNull = js_or i JNull" "js_or t' JNull = js_or t JNull"
    by (auto simp add: js_or_def)
  with entry i t h show "log_entry now event' = Inr entry"
    by (auto simp add: log_entry_def split: sum.splits)
qed

theorem falsy_id_and_type_logged_as_null_witness:
  "log_entry ''2026-01-01T00:00:00.000Z'' event_falsy_id =
     Inr (JObj [(''receivedAt'', JStr ''2026-01-01T00:00:00.000Z''), (''id'', JNull),
                (''type'', JNull), (''payload'', JObj [])]) \<and>
   get_prop event_falsy_id ''id'' = Inr (JStr []) \<and>
   get_prop event_falsy_id ''type'' = Inr (JNum 0) \<and>
   \<not> truthy (JStr []) \<and> \<not> truthy (JNum 0) \<and>
   get_prop (JObj [(''receivedAt'', JStr ''2026-01-01T00:00:00.000Z''), (''id'', JNull),
                (''type'', JNull), (''payload'', JObj [])]) ''id'' = Inr JNull \<and>
   get_prop (JObj [(''receivedAt'', JStr ''2026-01-01T00:00:00.000Z''), (''id'', JNull),
                (''type'', JNull), (''payload'', JObj [])]) ''type'' = Inr JNull \<and>
   get_prop event_falsy_id ''data'' = Inr (JObj [(''object'', JObj [])]) \<and>
   truthy (JObj [(''object'', JObj [])]) \<and>
   get_prop event_absent_id_and_type ''data'' = Inr (JObj [(''object'', JObj [])]) \<and>
   get_prop event_absent_id_and_type ''id'' = Inr JUndefined \<and>
   get_prop event_absent_id_and_type ''type'' = Inr JUndefined \<and>
   log_entry ''2026-01-01T00:00:00.000Z'' event_absent_id_and_type =
     Inr (JObj [(''receivedAt'', JStr ''2026-01-01T00:00:00.000Z''), (''id'', JNull),
                (''type'', JNull), (''payload'', JObj [])])"
proof -
  have entry: "log_entry ''2026-01-01T00:00:00.000Z'' event_falsy_id =
     Inr (JObj [(''receivedAt'', JStr ''2026-01-01T00:00:00.000Z''), (''id'', JNull),
                (''type'', JNull), (''payload'', JObj [])])"
    by (simp add: event_falsy_id_def log_entry_def js_or_def)
  have i: "get_prop event_falsy_id ''id'' = Inr (JStr [])"
    by (simp add: event_falsy_id_def)
  have t: "get_prop event_falsy_id ''type'' = Inr (JNum 0)"
    by (simp add: event_falsy_id_def)
  have d: "get_prop event_falsy_id ''data'' = Inr (JObj [(''object'', JObj [])])"
    by (simp add: event_falsy_id_def)
  have other: "get_prop event_absent_id_and_type ''data'' = Inr (JObj [(''object'', JObj [])]) \<and>
      get_prop event_absent_id_and_type ''id'' = Inr JUndefined \<and>
      get_prop event_absent_id_and_type ''type'' = Inr JUndefined"
    by (simp add: event_absent_id_and_type_def)
  have "log_entry ''2026-01-01T00:00:00.000Z'' event_absent_id_and_type =
     Inr (JObj [(''receivedAt'', JStr ''2026-01-01T00:00:00.000Z''), (''id'', JNull),
                (''type'', JNull), (''payload'', JObj [])])"
    using falsy_id_and_type_logged_as_null [OF entry i t] d other by auto
  then show ?thesis
    using entry i t d other falsy_id_and_type_logged_as_null [OF entry i t] by simp
qed

text \<open>
  Against C10 as it is written. Two events with the same type and \<^verbatim>\<open>data: false\<close>, one
  without \<^verbatim>\<open>id\<close>, one with the empty string as \<^verbatim>\<open>id\<close>: both are accepted and their log
  calls started, both entries have \<^verbatim>\<open>null\<close> as \<^verbatim>\<open>id\<close>, and yet their lines differ, for
  the payload is the whole event and carries the \<^verbatim>\<open>id\<close> as it came.
\<close>

theorem falsy_id_shows_in_the_payload:
  "webhook_post (example_env None event_absent_id_falsy_data) ''2026-01-01T00:00:00.000Z'' None
       (Buffer (JSON_stringify event_absent_id_falsy_data)) (initial NoEntry) =
     (SendJson 200 (JObj [(''received'', JBool True)]),
      \<lparr>receivedWebhooks =
         [JObj [(''id'', JUndefined), (''type'', JStr ''charge.failed''),
                (''created'', JStr ''2026-01-01T00:00:00.000Z''), (''data'', JUndefined)]],
       logs = NoEntry,
       console = [ConsoleLog [Text ''No signature provided (manual/local test)''],
                  ConsoleLog [Text ''Unhandled event type: charge.failed'']],
       pending = [event_absent_id_falsy_data]\<rparr>) \<and>
   webhook_post (example_env None event_empty_id_falsy_data) ''2026-01-01T00:00:00.000Z'' None
       (Buffer (JSON_stringify event_empty_id_falsy_data)) (initial NoEntry) =
     (SendJson 200 (JObj [(''received'', JBool True)]),
      \<lparr>receivedWebhooks =
         [JObj [(''id'', JStr []), (''type'', JStr ''charge.failed''),
                (''created'', JStr ''2026-01-01T00:00:00.000Z''), (''data'', JUndefined)]],
       logs = NoEntry,
       console = [ConsoleLog [Text ''No signature provided (manual/local test)''],
                  ConsoleLog [Text ''Unhandled event type: charge.failed'']],
       pending = [event_empty_id_falsy_data]\<rparr>) \<and>
   get_prop event_absent_id_falsy_data ''id'' = Inr JUndefined \<and>
   get_prop event_empty_id_falsy_data ''id'' = Inr (JStr []) \<and>
   log_entry ''2026-01-01T00:00:01.000Z'' event_absent_id_falsy_data =
     Inr (JObj [(''receivedAt'', JStr ''2026-01-01T00:00:01.000Z''), (''id'', JNull),
                (''type'', JStr ''charge.failed''), (''payload'', event_absent_id_falsy_data)]) \<and>
   log_entry ''2026-01-01T00:00:01.000Z'' event_empty_id_falsy_data =
     Inr (JObj [(''receivedAt'', JStr ''2026-01-01T00:00:01.000Z''), (''id'', JNull),
                (''type'', JStr ''charge.failed''), (''payload'', event_empty_id_falsy_data)]) \<and>
   log_line (JObj [(''receivedAt'', JStr ''2026-01-01T00:00:01.000Z''), (''id'', JNull),
                   (''type'', JStr ''charge.failed''), (''payload'', event_absent_id_falsy_data)]) \<noteq>
   log_line (JObj [(''receivedAt'', JStr ''2026-01-01T00:00:01.000Z''), (''id'', JNull),
                   (''type'', JStr ''charge.failed''), (''payload'', event_empty_id_falsy_data)])"
  by (simp add: example_env_def parse_only_def verify_def webhook_post_def body_toString_def
      webhook_record_def dispatch_def push_def keep_last_100_def initial_def
      event_absent_id_falsy_data_def event_empty_id_falsy_data_def
      log_entry_def js_or_def log_line_def JSON_stringify_def quote_def)


section \<open>The log directory\<close>

lemma length_full_log: "length full_log = MAX_LOG_BYTES"
  by (simp add: full_log_def)

lemma paths_distinct:
  "LOG_FILE \<noteq> rotatedName_of now" "LOG_FILE \<noteq> gzipPath_of now"
  "rotatedName_of now \<noteq> gzipPath_of now"
  "rotatedName_of now \<noteq> LOG_FILE" "gzipPath_of now \<noteq> LOG_FILE"
  "gzipPath_of now \<noteq> rotatedName_of now"
  by (simp_all add: LOG_FILE_def rotatedName_of_def gzipPath_of_def path_join_def LOG_DIR_def)

lemma ensureLogDir_resolves: "fst (ensureLogDir f s) = Resolved"
  by (simp add: ensureLogDir_def split: sum.splits)

lemma ensureLogDir_read_file:
  "read_file (logs (snd (ensureLogDir f s))) p = read_file (logs s) p"
  by (cases "logs s") (simp_all add: ensureLogDir_def fsp_mkdir_def read_file_def)

text \<open>
  C8, as amended. Where the log path is free or already a directory, and \<^verbatim>\<open>mkdir\<close>
  does not fail, \<^verbatim>\<open>ensureLogDir\<close> resolves, logs nothing and leaves the directory
  present, and a second call resolves and changes nothing.
\<close>

theorem ensureLogDir_idempotent:
  "logs s \<noteq> NotADirectory \<Longrightarrow> Mkdir \<notin> failing f \<Longrightarrow> Mkdir \<notin> failing f' \<Longrightarrow>
     fst (ensureLogDir f s) = Resolved \<and>
     is_directory (logs (snd (ensureLogDir f s))) \<and>
     console (snd (ensureLogDir f s)) = console s \<and>
     ensureLogDir f' (snd (ensureLogDir f s)) = (Resolved, snd (ensureLogDir f s))"
  by (cases "logs s") (simp_all add: ensureLogDir_def fsp_mkdir_def)

theorem ensureLogDir_idempotent_witness:
  "logs (initial NoEntry) \<noteq> NotADirectory \<and> Mkdir \<notin> failing no_faults \<and>
   fst (ensureLogDir no_faults (initial NoEntry)) = Resolved \<and>
   is_directory (logs (snd (ensureLogDir no_faults (initial NoEntry)))) \<and>
   console (snd (ensureLogDir no_faults (initial NoEntry))) = [] \<and>
   ensureLogDir no_faults (snd (ensureLogDir no_faults (initial NoEntry))) =
     (Resolved, snd (ensureLogDir no_faults (initial NoEntry)))"
  using ensureLogDir_idempotent [of "initial NoEntry" no_faults no_faults]
  by (simp add: initial_def no_faults_def)

text \<open>
  Against C8 as it is written. The log path is taken by something that is not a
  directory: after two calls it still is, no directory is present, and each call has
  met (and logged) the error of \<^verbatim>\<open>mkdir\<close>.
\<close>

theorem ensureLogDir_twice_on_a_file:
  "ensureLogDir no_faults (snd (ensureLogDir no_faults (initial NotADirectory))) =
     (Resolved,
      \<lparr>receivedWebhooks = [], logs = NotADirectory,
       console = [ConsoleError [Text ''Failed to create log dir'', Exc (FsError EEXIST)],
                  ConsoleError [Text ''Failed to create log dir'', Exc (FsError EEXIST)]],
       pending = []\<rparr>)"
  by (simp add: ensureLogDir_def fsp_mkdir_def no_faults_def initial_def)

lemma rotate_no_file:
  "read_file (logs s) LOG_FILE = None \<Longrightarrow> rotateLogIfNeeded gzip f now s = (Resolved, s)"
  by (cases "logs s") (simp_all add: rotateLogIfNeeded_def fsp_stat_def read_file_def)

lemma rotate_small_file:
  "read_file (logs s) LOG_FILE = Some c \<Longrightarrow> length c < MAX_LOG_BYTES \<Longrightarrow>
     rotateLogIfNeeded gzip f now s = (Resolved, s)"
  by (cases "logs s") (simp_all add: rotateLogIfNeeded_def fsp_stat_def read_file_def)

lemma rotate_full_file:
  assumes dir: "logs s = Directory files" and active: "files LOG_FILE = Some c"
    and full: "MAX_LOG_BYTES \<le> length c"
    and ok: "Stat \<notin> failing f" "Rename \<notin> failing f" "ReadStream \<notin> failing f"
      "WriteStream \<notin> failing f"
  shows "rotateLogIfNeeded gzip f now s =
     (Resolved,
      s\<lparr>logs := Directory
            (if Unlink \<in> failing f
             then (files(LOG_FILE := None, rotatedName_of now \<mapsto> c, gzipPath_of now \<mapsto> gzip c))
             else (files(LOG_FILE := None, rotatedName_of now \<mapsto> c, gzipPath_of now \<mapsto> gzip c,
                         rotatedName_of now := None))),
        console := console s @
          [ConsoleLog [Text (''Rotated and compressed log to '' @ gzipPath_of now)]]\<rparr>)"
  using assms paths_distinct [of now]
  by (simp add: rotateLogIfNeeded_def fsp_stat_def fsp_rename_def gzip_pipe_def fsp_unlink_def
      gzipPath_of_def Let_def)

text \<open>
  C5, as amended. \<^verbatim>\<open>rotateLogIfNeeded\<close> changes nothing when the active log file is not
  there or is smaller than 5,242,880 bytes. When the file has reached that size and
  neither \<^verbatim>\<open>stat\<close>, \<^verbatim>\<open>rename\<close> nor the two streams fail, the call resolves; the active
  file name is then gone, the archive \<^verbatim>\<open>webhooks-<timestamp>.log.gz\<close> holds the compressed
  bytes of the file as it was (they decompress to those bytes), the renamed uncompressed
  copy is gone unless its \<^verbatim>\<open>unlink\<close> failed, and no other file was created or changed.
\<close>

theorem rotateLogIfNeeded_outcome:
  "(read_file (logs s) LOG_FILE = None \<longrightarrow> rotateLogIfNeeded gzip f now s = (Resolved, s)) \<and>
   (\<forall>c. read_file (logs s) LOG_FILE = Some c \<and> length c < MAX_LOG_BYTES \<longrightarrow>
        rotateLogIfNeeded gzip f now s = (Resolved, s)) \<and>
   (\<forall>c. read_file (logs s) LOG_FILE = Some c \<and> MAX_LOG_BYTES \<le> length c \<and>
        Stat \<notin> failing f \<and> Rename \<notin> failing f \<and> ReadStream \<notin> failing f \<and>
        WriteStream \<notin> failing f \<and> gunzip (gzip c) = c \<longrightarrow>
        fst (rotateLogIfNeeded gzip f now s) = Resolved \<and>
        read_file (logs (snd (rotateLogIfNeeded gzip f now s))) LOG_FILE = None \<and>
        map_option gunzip (read_file (logs (snd (rotateLogIfNeeded gzip f now s))) (gzipPath_of now))
          = Some c \<and>
        read_file (logs (snd (rotateLogIfNeeded gzip f now s))) (rotatedName_of now)
          = (if Unlink \<in> failing f then Some c else None) \<and>
        (\<forall>p. p \<noteq> LOG_FILE \<and> p \<noteq> rotatedName_of now \<and> p \<noteq> gzipPath_of now \<longrightarrow>
           read_file (logs (snd (rotateLogIfNeeded gzip f now s))) p = read_file (logs s) p))"
proof (intro conjI allI impI)
  assume "read_file (logs s) LOG_FILE = None"
  then show "rotateLogIfNeeded gzip f now s = (Resolved, s)" by (rule rotate_no_file)
next
  fix c
  assume "read_file (logs s) LOG_FILE = Some c \<and> length c < MAX_LOG_BYTES"
  then show "rotateLogIfNeeded gzip f now s = (Resolved, s)" by (simp add: rotate_small_file)
next
  fix c
  assume h: "read_file (logs s) LOG_FILE = Some c \<and> MAX_LOG_BYTES \<le> length c \<and>
        Stat \<notin> failing f \<and> Rename \<notin> failing f \<and> ReadStream \<notin> failing f \<and>
        WriteStream \<notin> failing f \<and> gunzip (gzip c) = c"
  then obtain files where dir: "logs s = Directory files" and active: "files LOG_FILE = Some c"
    by (cases "logs s") (simp_all add: read_file_def)
  note eq = rotate_full_file [OF dir active, of f gzip now]
  show "fst (rotateLogIfNeeded gzip f now s) = Resolved"
    using h eq by simp
  show "read_file (logs (snd (rotateLogIfNeeded gzip f now s))) LOG_FILE = None"
    using h eq paths_distinct [of now] by (simp add: read_file_def)
  show "map_option gunzip (read_file (logs (snd (rotateLogIfNeeded gzip f now s))) (gzipPath_of now))
          = Some c"
    using h eq paths_distinct [of now] by (simp add: read_file_def)
  show "read_file (logs (snd (rotateLogIfNeeded gzip f now s))) (rotatedName_of now)
          = (if Unlink \<in> failing f then Some c else None)"
    using h eq paths_distinct [of now] by (simp add: read_file_def)
next
  fix c p
  assume h: "read_file (logs s) LOG_FILE = Some c \<and> MAX_LOG_BYTES \<le> length c \<and>
        Stat \<notin> failing f \<and> Rename \<notin> failing f \<and> ReadStream \<notin> failing f \<and>
        WriteStream \<notin> failing f \<and> gunzip (gzip c) = c"
    and p: "p \<noteq> LOG_FILE \<and> p \<noteq> rotatedName_of now \<and> p \<noteq> gzipPath_of now"
  from h obtain files where dir: "logs s = Directory files" and active: "files LOG_FILE = Some c"
    by (cases "logs s") (simp_all add: read_file_def)
  note eq = rotate_full_file [OF dir active, of f gzip now]
  show "read_file (logs (snd (rotateLogIfNeeded gzip f now s))) p = read_file (logs s) p"
    using h p eq dir by (simp add: read_file_def)
qed

theorem rotateLogIfNeeded_outcome_witness:
  "read_file (logs (initial NoEntry)) LOG_FILE = None \<and>
   rotateLogIfNeeded example_gzip no_faults ''2026-01-01T00:00:00.000Z'' (initial NoEntry)
     = (Resolved, initial NoEntry) \<and>
   read_file (logs (initial small_log_dir)) LOG_FILE = Some (''{}'' @ [newline]) \<and>
   length (''{}'' @ [newline]) < MAX_LOG_BYTES \<and>
   rotateLogIfNeeded example_gzip no_faults ''2026-01-01T00:00:00.000Z'' (initial small_log_dir)
     = (Resolved, initial small_log_dir) \<and>
   read_file (logs (initial full_log_dir)) LOG_FILE = Some full_log \<and>
   MAX_LOG_BYTES \<le> length full_log \<and>
   example_gunzip (example_gzip full_log) = full_log \<and>
   fst (rotateLogIfNeeded example_gzip no_faults ''2026-01-01T00:00:00.000Z'' (initial full_log_dir))
     = Resolved \<and>
   read_file (logs (snd (rotateLogIfNeeded example_gzip no_faults ''2026-01-01T00:00:00.000Z''
      (initial full_log_dir)))) LOG_FILE = None \<and>
   map_option example_gunzip
     (read_file (logs (snd (rotateLogIfNeeded example_gzip no_faults ''2026-01-01T00:00:00.000Z''
        (initial full_log_dir)))) (gzipPath_of ''2026-01-01T00:00:00.000Z'')) = Some full_log \<and>
   read_file (logs (snd (rotateLogIfNeeded example_gzip no_faults ''2026-01-01T00:00:00.000Z''
      (initial full_log_dir)))) (rotatedName_of ''2026-01-01T00:00:00.000Z'') = None"
proof -
  have a: "read_file (logs (initial NoEntry)) LOG_FILE = None"
    by (simp add: initial_def read_file_def)
  have b: "read_file (logs (initial small_log_dir)) LOG_FILE = Some (''{}'' @ [newline]) \<and>
      length (''{}'' @ [newline]) < MAX_LOG_BYTES"
    by (simp add: initial_def read_file_def small_log_dir_def MAX_LOG_BYTES_def)
  have c: "read_file (logs (initial full_log_dir)) LOG_FILE = Some full_log \<and>
      MAX_LOG_BYTES \<le> length full_log \<and>
      Stat \<notin> failing no_faults \<and> Rename \<notin> failing no_faults \<and>
      ReadStream \<notin> failing no_faults \<and> WriteStream \<notin> failing no_faults \<and>
      example_gunzip (example_gzip full_log) = full_log"
    by (simp add: initial_def read_file_def full_log_dir_def length_full_log no_faults_def
        example_gunzip_def example_gzip_def)
  show ?thesis
    using a b c
      rotateLogIfNeeded_outcome [of "initial NoEntry" example_gzip no_faults "''2026-01-01T00:00:00.000Z''"]
      rotateLogIfNeeded_outcome [of "initial small_log_dir" example_gzip no_faults "''2026-01-01T00:00:00.000Z''"]
      rotateLogIfNeeded_outcome [of "initial full_log_dir" example_gzip no_faults "''2026-01-01T00:00:00.000Z''"
                   example_gunzip]
    by (simp add: no_faults_def)
qed

text \<open>
  Against C5 as it is written. The active file has reached the threshold. When
  \<^verbatim>\<open>rename\<close> fails, the call resolves with the file where it was, uncompressed, and the
  error logged. When the output stream cannot be opened, the call resolves with no
  archive at all, the bytes lying uncompressed under the rotated name.
\<close>

theorem rotation_fails_with_its_io:
  "read_file (logs (initial full_log_dir)) LOG_FILE = Some full_log \<and>
   MAX_LOG_BYTES \<le> length full_log \<and>
   rotateLogIfNeeded example_gzip \<lparr>failing = {Rename}, flushed = None\<rparr>
       ''2026-01-01T00:00:00.000Z'' (initial full_log_dir)
     = (Resolved,
        \<lparr>receivedWebhooks = [], logs = full_log_dir,
         console = [ConsoleError [Text ''Error rotating log'', Exc (FsError EIO)]],
         pending = []\<rparr>) \<and>
   fst (rotateLogIfNeeded example_gzip \<lparr>failing = {WriteStream}, flushed = None\<rparr>
       ''2026-01-01T00:00:00.000Z'' (initial full_log_dir)) = Resolved \<and>
   read_file (logs (snd (rotateLogIfNeeded example_gzip \<lparr>failing = {WriteStream}, flushed = None\<rparr>
       ''2026-01-01T00:00:00.000Z'' (initial full_log_dir))))
     (gzipPath_of ''2026-01-01T00:00:00.000Z'') = None \<and>
   read_file (logs (snd (rotateLogIfNeeded example_gzip \<lparr>failing = {WriteStream}, flushed = None\<rparr>
       ''2026-01-01T00:00:00.000Z'' (initial full_log_dir))))
     (rotatedName_of ''2026-01-01T00:00:00.000Z'') = Some full_log"
  using paths_distinct [of "''2026-01-01T00:00:00.000Z''"]
  by (simp add: rotateLogIfNeeded_def fsp_stat_def fsp_rename_def gzip_pipe_def initial_def
      full_log_dir_def length_full_log read_file_def gzipPath_of_def)

text \<open>
  C6 fails on the code. The active file has reached the threshold and the stream that
  reads the renamed file meets an error. Line 54 hands the output stream's error to
  \<^verbatim>\<open>reject\<close>; nothing listens for the input stream's: the error is an uncaught
  exception, and the call of \<^verbatim>\<open>appendWebhookLog\<close> does not resolve.
\<close>

theorem unread_rotated_file_ends_the_process:
  "fst (appendWebhookLog gzip \<lparr>failing = {ReadStream}, flushed = None\<rparr> rotate_now entry_now
          event (s\<lparr>logs := full_log_dir\<rparr>))
     = Uncaught (FsError EIO)"
  by (simp add: appendWebhookLog_def ensureLogDir_def fsp_mkdir_def rotateLogIfNeeded_def
      fsp_stat_def fsp_rename_def gzip_pipe_def full_log_dir_def length_full_log Let_def)

text \<open>
  What does hold of \<^verbatim>\<open>appendWebhookLog\<close>. The call resolves in every case but that one:
  a rotation that is due and whose input stream fails.
\<close>

lemma rotate_settles:
  "fst (rotateLogIfNeeded gzip f now s) = Resolved \<or>
   (ReadStream \<in> failing f \<and>
    (\<exists>c. read_file (logs s) LOG_FILE = Some c \<and> MAX_LOG_BYTES \<le> length c) \<and>
    fst (rotateLogIfNeeded gzip f now s) = Uncaught (FsError EIO))"
  by (cases "logs s")
     (auto simp add: rotateLogIfNeeded_def fsp_stat_def fsp_rename_def gzip_pipe_def read_file_def
        Let_def split: option.splits sum.splits pipe_result.splits if_splits)

lemma rotate_active_file:
  "read_file (logs (snd (rotateLogIfNeeded gzip f now s))) LOG_FILE = read_file (logs s) LOG_FILE \<or>
   read_file (logs (snd (rotateLogIfNeeded gzip f now s))) LOG_FILE = None"
  using paths_distinct [of now]
  by (cases "logs s")
     (auto simp add: rotateLogIfNeeded_def fsp_stat_def fsp_rename_def gzip_pipe_def fsp_unlink_def
        read_file_def Let_def gzipPath_of_def
        split: option.splits sum.splits pipe_result.splits if_splits log_dir.splits)

lemma appendFile_active_file:
  "fsp_appendFile f LOG_FILE text d = Inr d' \<Longrightarrow>
     read_file d' LOG_FILE = Some ((case read_file d LOG_FILE of None \<Rightarrow> [] | Some c \<Rightarrow> c) @ text)"
  by (cases d) (auto simp add: fsp_appendFile_def read_file_def split: if_splits)

lemma failed_to_append_logs: "logs (failed_to_append err s) = logs s"
  by (simp add: failed_to_append_def)

lemma appendWebhookLog_settles:
  "fst (appendWebhookLog gzip f rotate_now entry_now event s) = Resolved \<or>
   (ReadStream \<in> failing f \<and>
    (\<exists>c. read_file (logs s) LOG_FILE = Some c \<and> MAX_LOG_BYTES \<le> length c) \<and>
    fst (appendWebhookLog gzip f rotate_now entry_now event s) = Uncaught (FsError EIO))"
proof -
  obtain s1 where s1: "ensureLogDir f s = (Resolved, s1)"
    using ensureLogDir_resolves [of f s] by (cases "ensureLogDir f s") simp
  have same: "read_file (logs s1) LOG_FILE = read_file (logs s) LOG_FILE"
    using ensureLogDir_read_file [of f s LOG_FILE] s1 by simp
  obtain r s2 where s2: "rotateLogIfNeeded gzip f rotate_now s1 = (r, s2)"
    by (cases "rotateLogIfNeeded gzip f rotate_now s1")
  from rotate_settles [of gzip f rotate_now s1] s2 same
  consider "r = Resolved"
    | "ReadStream \<in> failing f"
      "\<exists>c. read_file (logs s) LOG_FILE = Some c \<and> MAX_LOG_BYTES \<le> length c"
      "r = Uncaught (FsError EIO)"
    by auto
  then show ?thesis
  proof cases
    case 1
    then show ?thesis using s1 s2
      by (simp add: appendWebhookLog_def split: sum.splits)
  next
    case 2
    then show ?thesis using s1 s2 by (simp add: appendWebhookLog_def)
  qed
qed

lemma appendWebhookLog_resolves:
  "ReadStream \<notin> failing f \<Longrightarrow>
     fst (appendWebhookLog gzip f rotate_now entry_now event s) = Resolved"
  using appendWebhookLog_settles [of gzip f rotate_now entry_now event s] by auto

text \<open>
  And in every case the active file is afterwards as it was, or gone (rotated away), or
  the one line of the entry stands at the end of what it was or alone in a new file.
\<close>

lemma appendWebhookLog_at_most_one_line:
  "read_file (logs (snd (appendWebhookLog gzip f rotate_now entry_now event s))) LOG_FILE
     = read_file (logs s) LOG_FILE \<or>
   read_file (logs (snd (appendWebhookLog gzip f rotate_now entry_now event s))) LOG_FILE = None \<or>
   (\<exists>entry. log_entry entry_now event = Inr entry \<and>
      (read_file (logs (snd (appendWebhookLog gzip f rotate_now entry_now event s))) LOG_FILE
         = Some (log_line entry) \<or>
       (\<exists>c. read_file (logs s) LOG_FILE = Some c \<and>
          read_file (logs (snd (appendWebhookLog gzip f rotate_now entry_now event s))) LOG_FILE
            = Some (c @ log_line entry))))"
proof -
  obtain s1 where s1: "ensureLogDir f s = (Resolved, s1)"
    using ensureLogDir_resolves [of f s] by (cases "ensureLogDir f s") simp
  have file1: "read_file (logs s1) LOG_FILE = read_file (logs s) LOG_FILE"
    using ensureLogDir_read_file [of f s LOG_FILE] s1 by simp
  obtain r s2 where s2: "rotateLogIfNeeded gzip f rotate_now s1 = (r, s2)"
    by (cases "rotateLogIfNeeded gzip f rotate_now s1")
  have file2: "read_file (logs s2) LOG_FILE = read_file (logs s) LOG_FILE \<or>
      read_file (logs s2) LOG_FILE = None"
    using rotate_active_file [of gzip f rotate_now s1] s2 file1 by simp
  let ?s' = "snd (appendWebhookLog gzip f rotate_now entry_now event s)"
  show ?thesis
  proof (cases "\<exists>entry d. r = Resolved \<and> log_entry entry_now event = Inr entry \<and>
      fsp_appendFile f LOG_FILE (log_line entry) (logs s2) = Inr d")
    case True
    then obtain entry d where ok: "r = Resolved" "log_entry entry_now event = Inr entry"
      "fsp_appendFile f LOG_FILE (log_line entry) (logs s2) = Inr d" by blast
    then have "logs ?s' = d" using s1 s2 by (simp add: appendWebhookLog_def)
    then have "read_file (logs ?s') LOG_FILE =
        Some ((case read_file (logs s2) LOG_FILE of None \<Rightarrow> [] | Some c \<Rightarrow> c) @ log_line entry)"
      using appendFile_active_file [OF ok(3)] by simp
    then show ?thesis using file2 ok(2) by (cases "read_file (logs s) LOG_FILE") auto
  next
    case False
    then have "logs ?s' = logs s2" using s1 s2
      by (cases r; cases "log_entry entry_now event")
         (auto simp add: appendWebhookLog_def failed_to_append_logs split: sum.splits)
    then show ?thesis using file2 by auto
  qed
qed

text \<open>The log pipeline leaves \<^verbatim>\<open>receivedWebhooks\<close> alone.\<close>

lemma appendWebhookLog_keeps_buffer:
  "receivedWebhooks (snd (appendWebhookLog gzip f rotate_now entry_now event s)) = receivedWebhooks s"
  by (auto simp add: appendWebhookLog_def ensureLogDir_def rotateLogIfNeeded_def failed_to_append_def
      Let_def split: sum.splits settled.splits pipe_result.splits prod.splits if_splits)

lemma run_pending_keeps_buffer:
  "receivedWebhooks (snd (run_pending gzip f rotate_now entry_now s)) = receivedWebhooks s"
proof (cases "pending s")
  case Nil
  then show ?thesis by (simp add: run_pending_def)
next
  case (Cons event rest)
  obtain r s' where
    a: "appendWebhookLog gzip f rotate_now entry_now event (s\<lparr>pending := rest\<rparr>) = (r, s')"
    by (cases "appendWebhookLog gzip f rotate_now entry_now event (s\<lparr>pending := rest\<rparr>)")
  have "receivedWebhooks s' = receivedWebhooks s"
    using appendWebhookLog_keeps_buffer [of gzip f rotate_now entry_now event "s\<lparr>pending := rest\<rparr>"] a
    by simp
  then show ?thesis using Cons a by (cases r) (simp_all add: run_pending_def)
qed


section \<open>GET /webhook and the length of the array\<close>

lemma webhook_post_buffer:
  "receivedWebhooks (snd (webhook_post e now sig body s)) = receivedWebhooks s \<or>
   (\<exists>r. receivedWebhooks (snd (webhook_post e now sig body s)) = ring_push (receivedWebhooks s) r)"
  by (auto simp add: webhook_post_def ring_push_def Let_def split: sum.splits prod.splits)

lemma handle_length:
  assumes "length (receivedWebhooks s) \<le> 100"
  shows "length (receivedWebhooks (snd (handle e r s))) \<le> 100"
proof (cases r)
  case (PostWebhook now sig body)
  then show ?thesis
    using assms webhook_post_buffer [of e now sig body s]
    by (auto simp add: length_ring_push)
next
  case GetWebhook
  then show ?thesis using assms by (simp add: webhook_get_def)
qed

lemma take_turn_length:
  assumes "length (receivedWebhooks s) \<le> 100"
  shows "length (receivedWebhooks (take_turn e gzip t s)) \<le> 100"
proof (cases t)
  case (Request r)
  then show ?thesis using handle_length [OF assms] by simp
next
  case (LogTurn f rotate_now entry_now)
  then show ?thesis using assms by (simp add: run_pending_keeps_buffer)
qed

lemma run_Cons: "run e gzip (t # turns) s = run e gzip turns (take_turn e gzip t s)"
  by (simp add: run_def)

lemma run_length:
  "length (receivedWebhooks s) \<le> 100 \<Longrightarrow>
     length (receivedWebhooks (run e gzip turns s)) \<le> 100"
proof (induction turns arbitrary: s)
  case Nil
  then show ?case by (simp add: run_def)
next
  case (Cons t turns)
  show ?case
    using Cons.IH [OF take_turn_length [OF Cons.prems]] by (simp add: run_Cons)
qed

text \<open>
  C9. After any sequence of turns (requests to the two routes, and runs of the log
  pipeline between them) from the state in which the module loads, \<^verbatim>\<open>GET /webhook\<close>
  reports as \<^verbatim>\<open>total\<close> the length of the array as it is then, beside the array itself;
  that length is at most 100; and the state after the GET is the state before it.
\<close>

theorem total_is_buffer_length:
  "fst (webhook_get (run e gzip turns (initial d))) =
     SendJson 200
       (JObj [(''total'', JNum (int (length (receivedWebhooks (run e gzip turns (initial d)))))),
              (''events'', JArr (receivedWebhooks (run e gzip turns (initial d))))]) \<and>
   length (receivedWebhooks (run e gzip turns (initial d))) \<le> 100 \<and>
   snd (webhook_get (run e gzip turns (initial d))) = run e gzip turns (initial d)"
proof -
  have "length (receivedWebhooks (initial d)) \<le> 100" by (simp add: initial_def)
  then have "length (receivedWebhooks (run e gzip turns (initial d))) \<le> 100"
    by (rule run_length)
  then show ?thesis by (simp add: webhook_get_def)
qed

text \<open>
  The total is not a count of the events received: after 101 accepted events it is 100.
\<close>

lemma run_accepted_posts:
  assumes "verify e sig body = Inr (event, line)" "webhook_record now event = Inr r"
    "dispatch event = Inr line'"
  shows "receivedWebhooks (run e gzip (replicate n (Request (PostWebhook now sig body))) s) =
     foldl ring_push (receivedWebhooks s) (replicate n r)"
proof (induction n arbitrary: s)
  case 0
  show ?case by (simp add: run_def)
next
  case (Suc n)
  have "receivedWebhooks (snd (webhook_post e now sig body s)) = ring_push (receivedWebhooks s) r"
    using assms by (simp add: webhook_post_accepted)
  then show ?case using Suc.IH [of "snd (webhook_post e now sig body s)"]
    by (simp add: run_Cons)
qed

lemma total_is_not_cumulative:
  "fst (webhook_get (run (example_env None example_event) gzip
          (replicate 101
             (Request (PostWebhook ''2026-01-01T00:00:00.000Z'' None
                (Buffer (JSON_stringify example_event)))))
          (initial d))) =
     SendJson 200
       (JObj [(''total'', JNum 100),
              (''events'', JArr (replicate 100
                 (JObj [(''id'', JStr ''evt_1''), (''type'', JStr ''payment_intent.succeeded''),
                        (''created'', JStr ''2026-01-01T00:00:00.000Z''),
                        (''data'', JObj [(''id'', JStr ''pi_1'')])])))])"
proof -
  let ?r = "JObj [(''id'', JStr ''evt_1''), (''type'', JStr ''payment_intent.succeeded''),
                  (''created'', JStr ''2026-01-01T00:00:00.000Z''),
                  (''data'', JObj [(''id'', JStr ''pi_1'')])]"
  have v: "verify (example_env None example_event) None (Buffer (JSON_stringify example_event)) =
      Inr (example_event, ConsoleLog [Text ''No signature provided (manual/local test)''])"
    by (simp add: verify_def example_env_def parse_only_def body_toString_def)
  have r: "webhook_record ''2026-01-01T00:00:00.000Z'' example_event = Inr ?r"
    by (simp add: webhook_record_def example_event_def)
  have d: "dispatch example_event = Inr (ConsoleLog [Text ''Payment succeeded:'', Val (JStr ''pi_1'')])"
    by (simp add: dispatch_def event_data_object_def example_event_def)
  have "receivedWebhooks (run (example_env None example_event) gzip
          (replicate 101
             (Request (PostWebhook ''2026-01-01T00:00:00.000Z'' None
                (Buffer (JSON_stringify example_event)))))
          (initial d)) = foldl ring_push [] (replicate 101 ?r)"
    using run_accepted_posts [OF v r d, of gzip 101 "initial d"] by (simp add: initial_def)
  also have "\<dots> = drop (length (replicate 101 ?r) - 100) (replicate 101 ?r)"
    by (rule foldl_ring_push_long) simp
  also have "\<dots> = replicate 100 ?r" by simp
  finally show ?thesis by (simp add: webhook_get_def)
qed

end
